theory Spec2Isabelle
  imports Main "HOL-Library.Sublist" "HOL-Library.AList" "HOL-Library.Char_ord" "HOL-Library.List_Lexorder" "HOL-Library.Word"
begin

section \<open>Go values shared by the whole client\<close>

text \<open>
  A Go function either returns or panics (a nil dereference is a run-time panic).
  Every function of the client that can fault returns an \<open>outcome\<close>.
\<close>

datatype 'a outcome = Panic string | Returned 'a

definition nilDereference :: string where
  "nilDereference = ''invalid memory address or nil pointer dereference''"

text \<open>\<^verbatim>\<open>strings.HasPrefix\<close> and \<^verbatim>\<open>strings.Contains\<close> on byte strings.\<close>

definition HasPrefix :: "string \<Rightarrow> string \<Rightarrow> bool" where
  "HasPrefix s p = (length p \<le> length s \<and> take (length p) s = p)"

fun Contains :: "string \<Rightarrow> string \<Rightarrow> bool" where
  "Contains [] sub = (sub = [])"
| "Contains (c # cs) sub = (HasPrefix (c # cs) sub \<or> Contains cs sub)"

section \<open>errors.go: the error types\<close>

text \<open>
  Each Go error struct is one constructor of \<open>error\<close>, its fields in the order of the
  struct. \<open>APIResponseError\<close> is also embedded in the resource errors, so it is a record
  of its own; returned as an error by itself it is \<open>APIResponseErr\<close>. The \<open>Err\<close> field
  of a wrapping error holds the text of the wrapped error. \<open>'d\<close> is the decoded
  \<^verbatim>\<open>map[string]interface{}\<close> of an error envelope (\<open>None\<close> is the nil map): the
  client only copies it.
\<close>

datatype FailErrorDetail = FailErrorDetail string

record APIResponseError =
  StatusCode :: int
  Body :: string
  Message :: string

datatype 'd error =
    APIRequestError string string string
  | APIResponseErr APIResponseError
  | FailResponseError string "FailErrorDetail list" int
  | ServerError APIResponseError int "'d option"
  | JSONDecodingError string
  | BadRequestError APIResponseError "FailErrorDetail list" string
  | UnauthorizedError APIResponseError
  | NotFoundError APIResponseError "FailErrorDetail list"
  | ConflictError APIResponseError "FailErrorDetail list"
  | LeaseNotFoundError APIResponseError "FailErrorDetail list"
  | LeaseTemplateNotFoundError APIResponseError "FailErrorDetail list"
  | AccountNotFoundError APIResponseError "FailErrorDetail list"
  | LeaseConflictError APIResponseError "FailErrorDetail list"
  | LeaseTemplateConflictError APIResponseError "FailErrorDetail list"
  | AccountConflictError APIResponseError "FailErrorDetail list"
  | WrappedError string

section \<open>net/http values the client reads\<close>

text \<open>
  Of \<^verbatim>\<open>url.URL\<close>, \<^verbatim>\<open>http.Request\<close> and \<^verbatim>\<open>http.Response\<close> the fields the client
  sets or reads. \<open>RespRequest\<close> is \<^verbatim>\<open>resp.Request\<close> and \<open>ReqURL\<close> is \<^verbatim>\<open>req.URL\<close>, both
  pointers (\<open>None\<close> is nil); \<open>RespContentType\<close> is
  \<^verbatim>\<open>resp.Header.Get("Content-Type")\<close>; \<open>RespBody\<close> is everything read from
  \<^verbatim>\<open>resp.Body\<close>.
\<close>

record URL =
  Path :: string
  RawQuery :: string

record Request =
  Method :: string
  ReqURL :: "URL option"
  ReqContentType :: string
  ReqAuthorization :: string
  ReqBody :: "string option"

record Response =
  RespStatusCode :: int
  RespContentType :: string
  RespBody :: string
  RespRequest :: "Request option"

section \<open>errors.go: DecodeAPIError\<close>

text \<open>
  The two local decode targets of \<^verbatim>\<open>DecodeAPIError\<close>. \<open>fb_Errors\<close> is
  \<^verbatim>\<open>failBody.Data.Errors\<close>.
\<close>

record failBody =
  fb_Status :: string
  fb_Errors :: "FailErrorDetail list"

record 'd errorBody =
  eb_Status :: string
  eb_Message :: string
  eb_Code :: int
  eb_Data :: "'d option"

definition failBody_zero :: failBody where
  "failBody_zero = \<lparr>fb_Status = [], fb_Errors = []\<rparr>"

definition errorBody_zero :: "'d errorBody" where
  "errorBody_zero = \<lparr>eb_Status = [], eb_Message = [], eb_Code = 0, eb_Data = None\<rparr>"

text \<open>
  \<^verbatim>\<open>json.NewDecoder(bytes.NewReader(bodyBytes)).Decode(&v)\<close> belongs to encoding/json,
  not to this repository, so it is a parameter: given the body and the current value of
  the target it returns whether \<^verbatim>\<open>err == nil\<close> and the target's new value. The target is
  passed in because the source decodes into the same variable more than once.
\<close>

type_synonym failDecoder = "string \<Rightarrow> failBody \<Rightarrow> bool \<times> failBody"
type_synonym 'd errorDecoder = "string \<Rightarrow> 'd errorBody \<Rightarrow> bool \<times> 'd errorBody"

text \<open>The code after the switch (the three fallbacks).\<close>

definition DecodeAPIError_fallback ::
  "failDecoder \<Rightarrow> 'd errorDecoder \<Rightarrow> Response \<Rightarrow> failBody \<Rightarrow> 'd errorBody \<Rightarrow> 'd error" where
  "DecodeAPIError_fallback decodeFail decodeError resp failBody errorBody =
     (let bodyBytes = RespBody resp;
          (ok, failBody) = decodeFail bodyBytes failBody
      in if ok \<and> fb_Status failBody = ''fail''
         then FailResponseError (fb_Status failBody) (fb_Errors failBody) (RespStatusCode resp)
         else
           (let (ok, errorBody) = decodeError bodyBytes errorBody
            in if ok \<and> eb_Status errorBody = ''error''
               then ServerError
                      \<lparr>StatusCode = RespStatusCode resp, Body = [], Message = eb_Message errorBody\<rparr>
                      (eb_Code errorBody) (eb_Data errorBody)
               else APIResponseErr
                      \<lparr>StatusCode = RespStatusCode resp, Body = bodyBytes, Message = []\<rparr>))"

text \<open>
  The switch on the status code; a case that does not return falls out of the switch
  into the fallbacks with the decode targets as the failed decode left them.
  \<open>reqBody\<close> is the \<^verbatim>\<open>[]byte\<close> argument (\<open>None\<close> is nil; \<^verbatim>\<open>string(nil)\<close> is empty).
\<close>

definition DecodeAPIError ::
  "failDecoder \<Rightarrow> 'd errorDecoder \<Rightarrow> string option \<Rightarrow> Response \<Rightarrow> 'd error outcome" where
  "DecodeAPIError decodeFail decodeError reqBody resp =
     (let bodyBytes = RespBody resp;
          failBody = failBody_zero;
          errorBody = errorBody_zero
      in case RespRequest resp of
           None \<Rightarrow> Panic nilDereference
         | Some rq \<Rightarrow>
        (case ReqURL rq of
           None \<Rightarrow> Panic nilDereference
         | Some u \<Rightarrow>
        (let urlPath = Path u in
         if RespStatusCode resp = 400 then
           (let (ok, failBody) = decodeFail bodyBytes failBody
            in if ok \<and> fb_Status failBody = ''fail''
               then Returned (BadRequestError
                      \<lparr>StatusCode = 400, Body = [], Message = ''bad request''\<rparr>
                      (fb_Errors failBody)
                      (case reqBody of None \<Rightarrow> [] | Some b \<Rightarrow> b))
               else Returned (DecodeAPIError_fallback decodeFail decodeError resp failBody errorBody))
         else if RespStatusCode resp = 401 \<or> RespStatusCode resp = 403 then
           (let (ok, failBody) = decodeFail bodyBytes failBody
            in if ok \<and> fb_Status failBody = ''fail''
               then Returned (UnauthorizedError
                      \<lparr>StatusCode = RespStatusCode resp, Body = [], Message = ''unauthorized''\<rparr>)
               else Returned (DecodeAPIError_fallback decodeFail decodeError resp failBody errorBody))
         else if RespStatusCode resp = 404 then
           (let (ok, failBody) = decodeFail bodyBytes failBody
            in if ok \<and> fb_Status failBody = ''fail''
               then
                 (if HasPrefix urlPath ''/leases/''
                  then Returned (LeaseNotFoundError
                         \<lparr>StatusCode = 404, Body = [], Message = ''lease not found''\<rparr>
                         (fb_Errors failBody))
                  else if HasPrefix urlPath ''/leaseTemplates/''
                  then Returned (LeaseTemplateNotFoundError
                         \<lparr>StatusCode = 404, Body = [], Message = ''lease template not found''\<rparr>
                         (fb_Errors failBody))
                  else if HasPrefix urlPath ''/accounts/''
                  then Returned (AccountNotFoundError
                         \<lparr>StatusCode = 404, Body = [], Message = ''account not found''\<rparr>
                         (fb_Errors failBody))
                  else Returned (NotFoundError
                         \<lparr>StatusCode = 404, Body = [], Message = ''not found''\<rparr>
                         (fb_Errors failBody)))
               else Returned (DecodeAPIError_fallback decodeFail decodeError resp failBody errorBody))
         else if RespStatusCode resp = 409 then
           (let (ok, failBody) = decodeFail bodyBytes failBody
            in if ok \<and> fb_Status failBody = ''fail''
               then
                 (if HasPrefix urlPath ''/leases/''
                  then Returned (LeaseConflictError
                         \<lparr>StatusCode = 409, Body = [], Message = ''lease conflict''\<rparr>
                         (fb_Errors failBody))
                  else if HasPrefix urlPath ''/leaseTemplates/''
                  then Returned (LeaseTemplateConflictError
                         \<lparr>StatusCode = 409, Body = [], Message = ''lease template conflict''\<rparr>
                         (fb_Errors failBody))
                  else if HasPrefix urlPath ''/accounts/''
                  then Returned (AccountConflictError
                         \<lparr>StatusCode = 409, Body = [], Message = ''account conflict''\<rparr>
                         (fb_Errors failBody))
                  else Returned (ConflictError
                         \<lparr>StatusCode = 409, Body = [], Message = ''conflict''\<rparr>
                         (fb_Errors failBody)))
               else Returned (DecodeAPIError_fallback decodeFail decodeError resp failBody errorBody))
         else if RespStatusCode resp = 500 then
           (let (ok, errorBody) = decodeError bodyBytes errorBody
            in if ok \<and> eb_Status errorBody = ''error''
               then Returned (ServerError
                      \<lparr>StatusCode = 500, Body = [], Message = eb_Message errorBody\<rparr>
                      (eb_Code errorBody) (eb_Data errorBody))
               else Returned (DecodeAPIError_fallback decodeFail decodeError resp failBody errorBody))
         else Returned (DecodeAPIError_fallback decodeFail decodeError resp failBody errorBody))))"

text \<open>
  The classifier's contract in the specification's words, to compare with the code.
  The status-specific decode succeeded when the case of the switch returned an error:
  for 400, 401, 403, 404 and 409 the body decoded as a fail envelope whose status is
  \<open>fail\<close>, for 500 it decoded as an error envelope whose status is \<open>error\<close>; no other
  status has a decode of its own.
\<close>

definition statusSpecificDecodeSucceeded ::
  "failDecoder \<Rightarrow> 'd errorDecoder \<Rightarrow> Response \<Rightarrow> bool" where
  "statusSpecificDecodeSucceeded decodeFail decodeError resp =
     (if RespStatusCode resp = 400 \<or> RespStatusCode resp = 401 \<or> RespStatusCode resp = 403
         \<or> RespStatusCode resp = 404 \<or> RespStatusCode resp = 409
      then fst (decodeFail (RespBody resp) failBody_zero)
           \<and> fb_Status (snd (decodeFail (RespBody resp) failBody_zero)) = ''fail''
      else if RespStatusCode resp = 500
      then fst (decodeError (RespBody resp) errorBody_zero)
           \<and> eb_Status (snd (decodeError (RespBody resp) errorBody_zero)) = ''error''
      else False)"

text \<open>The decode targets as the switch leaves them when no case returned.\<close>

definition failBodyAfterSwitch :: "failDecoder \<Rightarrow> Response \<Rightarrow> failBody" where
  "failBodyAfterSwitch decodeFail resp =
     (if RespStatusCode resp = 400 \<or> RespStatusCode resp = 401 \<or> RespStatusCode resp = 403
         \<or> RespStatusCode resp = 404 \<or> RespStatusCode resp = 409
      then snd (decodeFail (RespBody resp) failBody_zero)
      else failBody_zero)"

definition errorBodyAfterSwitch :: "'d errorDecoder \<Rightarrow> Response \<Rightarrow> 'd errorBody" where
  "errorBodyAfterSwitch decodeError resp =
     (if RespStatusCode resp = 500
      then snd (decodeError (RespBody resp) errorBody_zero)
      else errorBody_zero)"

text \<open>
  The fallback chain as the specification orders it: (a) a fail envelope with status
  \<open>fail\<close> gives the generic fail-response error, (b) else an error envelope with status
  \<open>error\<close> gives the generic server error tagged with the actual status code, (c) else
  the generic response error with the raw status code and the raw body.
\<close>

definition fallbackChainResult ::
  "failDecoder \<Rightarrow> 'd errorDecoder \<Rightarrow> Response \<Rightarrow> 'd error" where
  "fallbackChainResult decodeFail decodeError resp =
     (let asFail = decodeFail (RespBody resp) (failBodyAfterSwitch decodeFail resp);
          asError = decodeError (RespBody resp) (errorBodyAfterSwitch decodeError resp)
      in if fst asFail \<and> fb_Status (snd asFail) = ''fail''
         then FailResponseError ''fail'' (fb_Errors (snd asFail)) (RespStatusCode resp)
         else if fst asError \<and> eb_Status (snd asError) = ''error''
         then ServerError
                \<lparr>StatusCode = RespStatusCode resp, Body = [], Message = eb_Message (snd asError)\<rparr>
                (eb_Code (snd asError)) (eb_Data (snd asError))
         else APIResponseErr
                \<lparr>StatusCode = RespStatusCode resp, Body = RespBody resp, Message = []\<rparr>)"

text \<open>A request path that begins with one of the three resource prefixes.\<close>

definition resourcePrefixed :: "string \<Rightarrow> bool" where
  "resourcePrefixed p =
     (HasPrefix p ''/leases/'' \<or> HasPrefix p ''/leaseTemplates/'' \<or> HasPrefix p ''/accounts/'')"

section \<open>types.go and auth.go: the values the operations exchange\<close>

text \<open>
  A \<^verbatim>\<open>float64\<close> is its IEEE-754 bit pattern: the client stores and copies such
  fields and never computes with them. A struct whose field names would clash with
  another's is a datatype with the fields in the order of the struct; a pointer to a
  struct is an \<open>option\<close> (\<open>None\<close> is nil).
\<close>

datatype float64 = Float64 "64 word"

datatype BudgetThreshold = BudgetThreshold float64 string

datatype DurationThreshold = DurationThreshold float64 string

datatype MetaData = MetaData string string string

record Lease =
  UserEmail :: string
  UUID :: string
  Status :: string
  OriginalLeaseTemplateUuid :: string
  OriginalLeaseTemplateName :: string
  LeaseDurationInHours :: int
  MaxSpend :: float64
  BudgetThresholds :: "BudgetThreshold list"
  DurationThresholds :: "DurationThreshold list"
  Comments :: string
  AwsAccountId :: string
  LeaseId :: string
  StartDate :: string
  ExpirationDate :: string
  EndDate :: string
  TotalCostAccrued :: float64
  Meta :: MetaData

datatype GlobalLeasesConfig = GlobalLeasesConfig float64 "int list" "int list" int float64 int

datatype GlobalCleanupConfig = GlobalCleanupConfig int int int int

datatype GlobalNotificationConfig = GlobalNotificationConfig string

datatype 'd GlobalConfiguration =
  GlobalConfiguration string bool GlobalLeasesConfig GlobalCleanupConfig "'d option"
    GlobalNotificationConfig

definition ReviewApprove :: string where
  "ReviewApprove = ''Approve''"

definition ReviewDeny :: string where
  "ReviewDeny = ''Deny''"

text \<open>
  The request structs: \<open>GetLeasesRequest\<close> holds PageIdentifier, PageSize and
  UserEmail; \<open>GetLeaseTemplatesRequest\<close> and \<open>GetAccountsRequest\<close> hold PageIdentifier
  and PageSize; \<open>CreateLeaseRequest\<close> holds LeaseTemplateUUID and Comments;
  \<open>UpdateLeaseRequest\<close> holds LeaseID and the four optional fields;
  \<open>ReviewLeaseRequest\<close> holds LeaseID and Action.
\<close>

datatype GetLeasesRequest = GetLeasesRequest string string string

datatype GetLeaseByIDRequest = GetLeaseByIDRequest string

datatype CreateLeaseRequest = CreateLeaseRequest string string

datatype GetLeaseTemplatesRequest = GetLeaseTemplatesRequest string string

datatype GetAccountsRequest = GetAccountsRequest string string

datatype UpdateLeaseRequest =
  UpdateLeaseRequest string "float64 option" "BudgetThreshold list option" "string option"
    "DurationThreshold list option"

datatype ReviewLeaseRequest = ReviewLeaseRequest string string

text \<open>The response structs: \<open>GetLeasesResponse\<close> holds Leases and NextPageIdentifier.\<close>

datatype GetLeasesResponse = GetLeasesResponse "Lease list" string

datatype GetLeaseByIDResponse = GetLeaseByIDResponse Lease

datatype CreateLeaseResponse = CreateLeaseResponse Lease

datatype UpdateLeaseResponse = UpdateLeaseResponse Lease

text \<open>
  The interface \<^verbatim>\<open>QueryBuilder\<close> is implemented by pointers to five request structs;
  a nil interface value is \<open>None\<close> of \<open>QueryBuilder option\<close>, a nil pointer inside a
  non-nil interface value is the constructor applied to \<open>None\<close>.
\<close>

datatype QueryBuilder =
    QB_GetLeasesRequest "GetLeasesRequest option"
  | QB_GetLeaseByIDRequest "GetLeaseByIDRequest option"
  | QB_CreateLeaseRequest "CreateLeaseRequest option"
  | QB_GetLeaseTemplatesRequest "GetLeaseTemplatesRequest option"
  | QB_GetAccountsRequest "GetAccountsRequest option"

subsection \<open>auth.go\<close>

record UserClaims =
  DisplayName :: string
  UserName :: string
  Email :: string
  Roles :: "string list"

text \<open>Times and durations are nanoseconds; a numeric date keeps whole seconds.\<close>

record Claims =
  User :: UserClaims
  IssuedAt :: int
  ExpiresAt :: int

definition RoleAdmin :: string where
  "RoleAdmin = ''Admin''"

definition RoleManager :: string where
  "RoleManager = ''Manager''"

definition RoleUser :: string where
  "RoleUser = ''User''"

definition NewAdminUserClaims :: "string \<Rightarrow> UserClaims" where
  "NewAdminUserClaims email =
     \<lparr>DisplayName = ''Admin'', UserName = email, Email = email, Roles = [RoleAdmin]\<rparr>"

definition NewUserUserClaims :: "string \<Rightarrow> UserClaims" where
  "NewUserUserClaims email =
     \<lparr>DisplayName = ''GitHub'', UserName = email, Email = email, Roles = [RoleUser]\<rparr>"

definition time_Second :: int where
  "time_Second = 1000000000"

definition time_Minute :: int where
  "time_Minute = 60 * time_Second"

definition NewNumericDate :: "int \<Rightarrow> int" where
  "NewNumericDate t = (t div time_Second) * time_Second"

subsection \<open>What the client takes from outside the repository\<close>

text \<open>
  The standard library, the JWT library, the clock and the network are parameters of
  the model, collected in one record. \<open>'w\<close> is the state of the world outside the
  process (the servers, the clock); sending a request may change it.
  \<^item> \<open>url_Parse\<close> is \<^verbatim>\<open>url.Parse\<close> (\<open>Inl\<close> the error's text), \<open>url_String\<close> is
    \<^verbatim>\<open>(*url.URL).String\<close>.
  \<^item> \<open>roundTrip\<close> is \<^verbatim>\<open>http.DefaultTransport\<close> as \<^verbatim>\<open>http.Client.Do\<close> drives it: the
    response, or \<open>Inl\<close> the text of the network error.
  \<^item> \<open>json_DecodeFail\<close> and \<open>json_DecodeError\<close> decode into the two targets of
    \<open>DecodeAPIError\<close>; \<open>json_DecodeLease\<close>, \<open>json_DecodeLeases\<close> and
    \<open>json_DecodeConfiguration\<close> decode a success envelope into a fresh wrapper and give
    its \<open>Data\<close> (\<open>Inl\<close> the error's text).
  \<^item> \<open>json_Quote\<close> is the JSON encoding of one Go string, quotes included;
    \<open>json_MarshalUpdateLease\<close> is \<^verbatim>\<open>json.Marshal\<close> of an \<open>UpdateLeaseRequest\<close>.
  \<^item> \<open>time_Now\<close> reads the clock; \<open>jwt_SignedString\<close> is the HS256 signature of the
    claims under a secret.
\<close>

record ('w, 'd) lib =
  url_Parse :: "string \<Rightarrow> string + URL"
  url_String :: "URL \<Rightarrow> string"
  roundTrip :: "Request \<Rightarrow> 'w \<Rightarrow> (string + Response) \<times> 'w"
  json_DecodeFail :: failDecoder
  json_DecodeError :: "'d errorDecoder"
  json_DecodeLease :: "string \<Rightarrow> string + Lease"
  json_DecodeLeases :: "string \<Rightarrow> string + GetLeasesResponse"
  json_DecodeConfiguration :: "string \<Rightarrow> string + 'd GlobalConfiguration"
  json_Quote :: "string \<Rightarrow> string"
  json_MarshalUpdateLease :: "UpdateLeaseRequest \<Rightarrow> string + string"
  time_Now :: "'w \<Rightarrow> int"
  jwt_SignedString :: "Claims \<Rightarrow> string \<Rightarrow> string + string"

text \<open>\<^verbatim>\<open>GenerateJWT\<close>: the claims signed with the secret.\<close>

definition GenerateJWT ::
  "('w, 'd) lib \<Rightarrow> UserClaims \<Rightarrow> string \<Rightarrow> int \<Rightarrow> 'w \<Rightarrow> string + string" where
  "GenerateJWT L user secret expiresIn w =
     (let now = time_Now L w;
          claims = \<lparr>User = user, IssuedAt = NewNumericDate now,
                    ExpiresAt = NewNumericDate (now + expiresIn)\<rparr>
      in jwt_SignedString L claims secret)"

text \<open>
  \<^verbatim>\<open>json.Marshal\<close> of a map from strings to strings: the keys in sorted order.
  \<^verbatim>\<open>base64.StdEncoding.EncodeToString\<close>: three bytes give four characters of the
  standard alphabet, the last group padded with \<open>=\<close>.
\<close>

fun joinWith :: "string \<Rightarrow> string list \<Rightarrow> string" where
  "joinWith sep [] = []"
| "joinWith sep [x] = x"
| "joinWith sep (x # y # ys) = x @ sep @ joinWith sep (y # ys)"

definition json_Marshal_map :: "(string \<Rightarrow> string) \<Rightarrow> (string \<times> string) list \<Rightarrow> string" where
  "json_Marshal_map quote m =
     ''{'' @ joinWith '','' (map (\<lambda>(k, v). quote k @ '':'' @ quote v) (sort_key fst m)) @ ''}''"

definition encodeStd :: string where
  "encodeStd = ''ABCDEFGHIJKLMNOPQRSTUVWXYZabcdefghijklmnopqrstuvwxyz0123456789+/''"

fun encodeGroups :: "nat list \<Rightarrow> string" where
  "encodeGroups (a # b # c # rest) =
     [encodeStd ! (a div 4), encodeStd ! ((a mod 4) * 16 + b div 16),
      encodeStd ! ((b mod 16) * 4 + c div 64), encodeStd ! (c mod 64)] @ encodeGroups rest"
| "encodeGroups [a, b] =
     [encodeStd ! (a div 4), encodeStd ! ((a mod 4) * 16 + b div 16),
      encodeStd ! ((b mod 16) * 4), CHR ''='']"
| "encodeGroups [a] =
     [encodeStd ! (a div 4), encodeStd ! ((a mod 4) * 16), CHR ''='', CHR ''='']"
| "encodeGroups [] = []"

definition EncodeToString :: "string \<Rightarrow> string" where
  "EncodeToString src = encodeGroups (map of_char src)"

section \<open>net/url: query strings\<close>

text \<open>
  \<^verbatim>\<open>url.Values\<close> is a map from a key to its list of values: an association list with
  one entry per key. \<open>Values_Set\<close> is \<^verbatim>\<open>Set\<close>, \<open>Values_lookup\<close> is the indexing \<^verbatim>\<open>m[key]\<close>
  (nil, the empty list, for an absent key).
\<close>

type_synonym Values = "(string \<times> string list) list"

definition Values_Set :: "string \<Rightarrow> string \<Rightarrow> Values \<Rightarrow> Values" where
  "Values_Set key v m = AList.update key [v] m"

definition Values_lookup :: "Values \<Rightarrow> string \<Rightarrow> string list" where
  "Values_lookup m key = (case map_of m key of None \<Rightarrow> [] | Some vs \<Rightarrow> vs)"

text \<open>
  \<^verbatim>\<open>url.QueryEscape\<close> (the mode \<^verbatim>\<open>encodeQueryComponent\<close> of \<^verbatim>\<open>escape\<close>): letters, digits
  and \<open>- _ . ~\<close> stay, a space becomes \<open>+\<close>, every other byte becomes \<open>%XX\<close>.
\<close>

definition shouldEscape :: "char \<Rightarrow> bool" where
  "shouldEscape c =
     (if (CHR ''a'' \<le> c \<and> c \<le> CHR ''z'') \<or> (CHR ''A'' \<le> c \<and> c \<le> CHR ''Z'')
         \<or> (CHR ''0'' \<le> c \<and> c \<le> CHR ''9'')
      then False
      else if c = CHR ''-'' \<or> c = CHR ''_'' \<or> c = CHR ''.'' \<or> c = CHR ''~''
      then False
      else True)"

definition upperhex :: string where
  "upperhex = ''0123456789ABCDEF''"

fun QueryEscape :: "string \<Rightarrow> string" where
  "QueryEscape [] = []"
| "QueryEscape (c # cs) =
     (if c = CHR '' '' then CHR ''+'' # QueryEscape cs
      else if shouldEscape c
      then CHR ''%'' # upperhex ! (of_char c div 16) # upperhex ! (of_char c mod 16) # QueryEscape cs
      else c # QueryEscape cs)"

text \<open>
  \<^verbatim>\<open>url.QueryUnescape\<close>: \<open>%XX\<close> becomes the byte, \<open>+\<close> a space; a \<open>%\<close> that two hex
  digits do not follow is an error (\<open>Inl\<close>, with the malformed escape).
\<close>

definition ishex :: "char \<Rightarrow> bool" where
  "ishex c =
     ((CHR ''0'' \<le> c \<and> c \<le> CHR ''9'') \<or> (CHR ''a'' \<le> c \<and> c \<le> CHR ''f'')
      \<or> (CHR ''A'' \<le> c \<and> c \<le> CHR ''F''))"

definition unhex :: "char \<Rightarrow> nat" where
  "unhex c =
     (if CHR ''0'' \<le> c \<and> c \<le> CHR ''9'' then of_char c - of_char CHR ''0''
      else if CHR ''a'' \<le> c \<and> c \<le> CHR ''f'' then of_char c - of_char CHR ''a'' + 10
      else if CHR ''A'' \<le> c \<and> c \<le> CHR ''F'' then of_char c - of_char CHR ''A'' + 10
      else 0)"

fun QueryUnescape :: "string \<Rightarrow> string + string" where
  "QueryUnescape [] = Inr []"
| "QueryUnescape (c # cs) =
     (if c = CHR ''%'' then
        (case cs of
           h1 # h2 # rest \<Rightarrow>
             if ishex h1 \<and> ishex h2
             then (case QueryUnescape rest of
                     Inl e \<Rightarrow> Inl e
                   | Inr t \<Rightarrow> Inr (char_of (unhex h1 * 16 + unhex h2) # t))
             else Inl (take 3 (c # cs))
         | _ \<Rightarrow> Inl (take 3 (c # cs)))
      else if c = CHR ''+'' then
        (case QueryUnescape cs of Inl e \<Rightarrow> Inl e | Inr t \<Rightarrow> Inr (CHR '' '' # t))
      else
        (case QueryUnescape cs of Inl e \<Rightarrow> Inl e | Inr t \<Rightarrow> Inr (c # t)))"

text \<open>
  \<^verbatim>\<open>Values.Encode\<close>: the keys in sorted order, each value as \<open>key=value\<close>, both
  escaped, joined by \<open>&\<close>.
\<close>

definition Encode :: "Values \<Rightarrow> string" where
  "Encode v =
     joinWith ''&''
       (concat (map (\<lambda>(k, vs). map (\<lambda>x. QueryEscape k @ ''='' @ QueryEscape x) vs)
                    (sort_key fst v)))"

text \<open>
  \<^verbatim>\<open>strings.Cut\<close> at a one-byte separator: the text before the first separator and
  the text after it (empty when there is none).
\<close>

definition Cut :: "string \<Rightarrow> char \<Rightarrow> string \<times> string" where
  "Cut s sep = (takeWhile (\<lambda>c. c \<noteq> sep) s, drop 1 (dropWhile (\<lambda>c. c \<noteq> sep) s))"

lemma Cut_shorter: "s \<noteq> [] \<Longrightarrow> (before, after) = Cut s sep \<Longrightarrow> length after < length s"
proof -
  assume s: "s \<noteq> []" and c: "(before, after) = Cut s sep"
  have "length (dropWhile (\<lambda>c. c \<noteq> sep) s) \<le> length s"
    by (rule length_dropWhile_le)
  with s c show ?thesis
    by (cases "dropWhile (\<lambda>c. c \<noteq> sep) s") (auto simp add: Cut_def)
qed

text \<open>
  \<^verbatim>\<open>url.ParseQuery\<close>, the standard parser of query strings: the loop of \<^verbatim>\<open>parseQuery\<close>
  over the pieces between \<open>&\<close>, with the map and the first error so far.
\<close>

function parseQuery :: "Values \<Rightarrow> string \<Rightarrow> string option \<Rightarrow> Values \<times> string option" where
  "parseQuery m query err =
     (if query = [] then (m, err)
      else
        (let (key, query') = Cut query CHR ''&'' in
         if Contains key '';'' then parseQuery m query' (Some ''invalid semicolon separator in query'')
         else if key = [] then parseQuery m query' err
         else
           (let (key, v) = Cut key CHR ''='' in
            case QueryUnescape key of
              Inl err1 \<Rightarrow> parseQuery m query' (if err = None then Some err1 else err)
            | Inr key \<Rightarrow>
               (case QueryUnescape v of
                  Inl err1 \<Rightarrow> parseQuery m query' (if err = None then Some err1 else err)
                | Inr v \<Rightarrow>
                    parseQuery (AList.update key (Values_lookup m key @ [v]) m) query' err))))"
  by pat_completeness auto
termination
  by (relation "measure (\<lambda>(m, query, err). length query)") (auto dest: Cut_shorter)

declare parseQuery.simps [simp del]

definition ParseQuery :: "string \<Rightarrow> Values \<times> string option" where
  "ParseQuery query = parseQuery [] query None"

subsection \<open>types.go: the query builders and the page cursor\<close>

definition GetLeasesRequest_BuildQuery :: "GetLeasesRequest option \<Rightarrow> Values" where
  "GetLeasesRequest_BuildQuery r =
     (case r of
        None \<Rightarrow> []
      | Some (GetLeasesRequest pageIdentifier pageSize userEmail) \<Rightarrow>
          (let q = [];
               q = (if pageIdentifier \<noteq> [] then Values_Set ''pageIdentifier'' pageIdentifier q else q);
               q = (if pageSize \<noteq> [] then Values_Set ''pageSize'' pageSize q else q);
               q = (if userEmail \<noteq> [] then Values_Set ''userEmail'' userEmail q else q)
           in q))"

definition GetLeaseByIDRequest_BuildQuery :: "GetLeaseByIDRequest option \<Rightarrow> Values" where
  "GetLeaseByIDRequest_BuildQuery r =
     (case r of
        None \<Rightarrow> []
      | Some (GetLeaseByIDRequest leaseID) \<Rightarrow>
          (let q = [];
               q = (if leaseID \<noteq> [] then Values_Set ''leaseId'' leaseID q else q)
           in q))"

definition CreateLeaseRequest_BuildQuery :: "CreateLeaseRequest option \<Rightarrow> Values" where
  "CreateLeaseRequest_BuildQuery r =
     (case r of
        None \<Rightarrow> []
      | Some (CreateLeaseRequest leaseTemplateUUID comments) \<Rightarrow>
          (let q = [];
               q = (if leaseTemplateUUID \<noteq> []
                    then Values_Set ''leaseTemplateUuid'' leaseTemplateUUID q else q);
               q = (if comments \<noteq> [] then Values_Set ''comments'' comments q else q)
           in q))"

definition GetLeaseTemplatesRequest_BuildQuery :: "GetLeaseTemplatesRequest option \<Rightarrow> Values" where
  "GetLeaseTemplatesRequest_BuildQuery r =
     (case r of
        None \<Rightarrow> []
      | Some (GetLeaseTemplatesRequest pageIdentifier pageSize) \<Rightarrow>
          (let q = [];
               q = (if pageIdentifier \<noteq> [] then Values_Set ''pageIdentifier'' pageIdentifier q else q);
               q = (if pageSize \<noteq> [] then Values_Set ''pageSize'' pageSize q else q)
           in q))"

definition GetAccountsRequest_BuildQuery :: "GetAccountsRequest option \<Rightarrow> Values" where
  "GetAccountsRequest_BuildQuery r =
     (case r of
        None \<Rightarrow> []
      | Some (GetAccountsRequest pageIdentifier pageSize) \<Rightarrow>
          (let q = [];
               q = (if pageIdentifier \<noteq> [] then Values_Set ''pageIdentifier'' pageIdentifier q else q);
               q = (if pageSize \<noteq> [] then Values_Set ''pageSize'' pageSize q else q)
           in q))"

fun BuildQuery :: "QueryBuilder \<Rightarrow> Values" where
  "BuildQuery (QB_GetLeasesRequest r) = GetLeasesRequest_BuildQuery r"
| "BuildQuery (QB_GetLeaseByIDRequest r) = GetLeaseByIDRequest_BuildQuery r"
| "BuildQuery (QB_CreateLeaseRequest r) = CreateLeaseRequest_BuildQuery r"
| "BuildQuery (QB_GetLeaseTemplatesRequest r) = GetLeaseTemplatesRequest_BuildQuery r"
| "BuildQuery (QB_GetAccountsRequest r) = GetAccountsRequest_BuildQuery r"

text \<open>
  \<^verbatim>\<open>SetPageIdentifier\<close> has a pointer receiver and assigns through it: on a nil
  pointer it faults.
\<close>

definition GetLeasesRequest_SetPageIdentifier ::
  "string \<Rightarrow> GetLeasesRequest option \<Rightarrow> GetLeasesRequest option outcome" where
  "GetLeasesRequest_SetPageIdentifier next r =
     (case r of
        None \<Rightarrow> Panic nilDereference
      | Some (GetLeasesRequest pageIdentifier pageSize userEmail) \<Rightarrow>
          Returned (Some (GetLeasesRequest next pageSize userEmail)))"

definition GetLeaseTemplatesRequest_SetPageIdentifier ::
  "string \<Rightarrow> GetLeaseTemplatesRequest option \<Rightarrow> GetLeaseTemplatesRequest option outcome" where
  "GetLeaseTemplatesRequest_SetPageIdentifier next r =
     (case r of
        None \<Rightarrow> Panic nilDereference
      | Some (GetLeaseTemplatesRequest pageIdentifier pageSize) \<Rightarrow>
          Returned (Some (GetLeaseTemplatesRequest next pageSize)))"

definition GetAccountsRequest_SetPageIdentifier ::
  "string \<Rightarrow> GetAccountsRequest option \<Rightarrow> GetAccountsRequest option outcome" where
  "GetAccountsRequest_SetPageIdentifier next r =
     (case r of
        None \<Rightarrow> Panic nilDereference
      | Some (GetAccountsRequest pageIdentifier pageSize) \<Rightarrow>
          Returned (Some (GetAccountsRequest next pageSize)))"

section \<open>client.go: the transport helpers\<close>

text \<open>
  The client as \<^verbatim>\<open>NewClient\<close> builds it: the base URL, the token, and an HTTP client
  whose transport is an \<^verbatim>\<open>authTransport\<close> with that token over the default transport.
\<close>

record Client =
  BaseURL :: string
  Token :: string

definition NewClient :: "string \<Rightarrow> string \<Rightarrow> Client" where
  "NewClient baseURL token = \<lparr>BaseURL = baseURL, Token = token\<rparr>"

text \<open>
  \<^verbatim>\<open>http.NewRequestWithContext\<close> parses the URL and fails when it does not parse. A
  body given as \<^verbatim>\<open>bytes.NewReader(b)\<close> is present even when \<^verbatim>\<open>b\<close> is nil.
\<close>

definition NewRequestWithContext ::
  "('w, 'd) lib \<Rightarrow> string \<Rightarrow> string \<Rightarrow> string option \<Rightarrow> string + Request" where
  "NewRequestWithContext L method url body =
     (case url_Parse L url of
        Inl err \<Rightarrow> Inl err
      | Inr u \<Rightarrow> Inr \<lparr>Method = method, ReqURL = Some u, ReqContentType = [],
                     ReqAuthorization = [], ReqBody = body\<rparr>)"

definition bytes_NewReader :: "string option \<Rightarrow> string option" where
  "bytes_NewReader b = Some (case b of None \<Rightarrow> [] | Some s \<Rightarrow> s)"

text \<open>\<^verbatim>\<open>authTransport.RoundTrip\<close>, and \<^verbatim>\<open>c.HTTPClient.Do\<close> which goes through it.\<close>

definition authTransport_RoundTrip ::
  "('w, 'd) lib \<Rightarrow> string \<Rightarrow> Request \<Rightarrow> 'w \<Rightarrow> (string + Response) \<times> 'w" where
  "authTransport_RoundTrip L token req w =
     (if token \<noteq> []
      then roundTrip L (req\<lparr>ReqAuthorization := ''Bearer '' @ token\<rparr>) w
      else roundTrip L req w)"

definition HTTPClient_Do ::
  "('w, 'd) lib \<Rightarrow> Client \<Rightarrow> Request \<Rightarrow> 'w \<Rightarrow> (string + Response) \<times> 'w" where
  "HTTPClient_Do L c req w = authTransport_RoundTrip L (Token c) req w"

text \<open>
  \<^verbatim>\<open>isJSONResponse\<close> reads the whole body (and leaves it readable again) and returns
  whether the body is empty or the content type contains \<open>application/json\<close>; its
  second result is the empty string on every path.
\<close>

definition isJSONResponse :: "Response \<Rightarrow> bool \<times> string" where
  "isJSONResponse resp =
     (let bodyBytes = RespBody resp in
      if length bodyBytes = 0 then (True, [])
      else
        (let contentType = RespContentType resp in
         if length contentType < length ''application/json''
            \<or> \<not> Contains contentType ''application/json''
         then (False, [])
         else (True, [])))"

definition nonJSONError :: "Response \<Rightarrow> string \<Rightarrow> string" where
  "nonJSONError resp body = ''non-JSON response ('' @ RespContentType resp @ ''): '' @ body"

text \<open>
  A Go function returning \<^verbatim>\<open>(*T, error)\<close> returns a pair, each half nil or not; it
  may also fault, and it may have changed the world.
\<close>

type_synonym ('a, 'd) ret = "'a option \<times> 'd error option"

definition classified :: "'d error outcome \<Rightarrow> 'w \<Rightarrow> ('a, 'd) ret outcome \<times> 'w" where
  "classified r w =
     (case r of Panic p \<Rightarrow> (Panic p, w) | Returned e \<Rightarrow> (Returned (None, Some e), w))"

definition doGet ::
  "('w, 'd) lib \<Rightarrow> Client \<Rightarrow> string \<Rightarrow> 'w \<Rightarrow> (Response, 'd) ret outcome \<times> 'w" where
  "doGet L c url w =
     (case NewRequestWithContext L ''GET'' url None of
        Inl err \<Rightarrow> (Returned (None, Some (APIRequestError ''new_request'' url err)), w)
      | Inr httpReq \<Rightarrow>
     (case HTTPClient_Do L c httpReq w of
        (Inl err, w') \<Rightarrow> (Returned (None, Some (APIRequestError ''do'' url err)), w')
      | (Inr resp, w') \<Rightarrow>
     (let (isJSON, body) = isJSONResponse resp in
      if \<not> isJSON
      then (Returned (None, Some (APIRequestError ''doGet'' url (nonJSONError resp body))), w')
      else if RespStatusCode resp \<noteq> 200
      then classified (DecodeAPIError (json_DecodeFail L) (json_DecodeError L) None resp) w'
      else (Returned (Some resp, None), w'))))"

definition doPost ::
  "('w, 'd) lib \<Rightarrow> Client \<Rightarrow> string \<Rightarrow> string option \<Rightarrow> 'w
     \<Rightarrow> (Response, 'd) ret outcome \<times> 'w" where
  "doPost L c url body w =
     (case NewRequestWithContext L ''POST'' url (bytes_NewReader body) of
        Inl err \<Rightarrow> (Returned (None, Some (APIRequestError ''new_request'' url err)), w)
      | Inr httpReq \<Rightarrow>
     (let httpReq = httpReq\<lparr>ReqContentType := ''application/json''\<rparr> in
      case HTTPClient_Do L c httpReq w of
        (Inl err, w') \<Rightarrow> (Returned (None, Some (APIRequestError ''do'' url err)), w')
      | (Inr resp, w') \<Rightarrow>
     (let (isJSON, body') = isJSONResponse resp in
      if \<not> isJSON
      then (Returned (None, Some (APIRequestError ''doPost'' url (nonJSONError resp body'))), w')
      else if RespStatusCode resp \<noteq> 200 \<and> RespStatusCode resp \<noteq> 201
      then classified (DecodeAPIError (json_DecodeFail L) (json_DecodeError L) body resp) w'
      else (Returned (Some resp, None), w'))))"

definition doPatch ::
  "('w, 'd) lib \<Rightarrow> Client \<Rightarrow> string \<Rightarrow> string option \<Rightarrow> 'w
     \<Rightarrow> (Response, 'd) ret outcome \<times> 'w" where
  "doPatch L c url body w =
     (case NewRequestWithContext L ''PATCH'' url (bytes_NewReader body) of
        Inl err \<Rightarrow> (Returned (None, Some (APIRequestError ''new_request'' url err)), w)
      | Inr httpReq \<Rightarrow>
     (let httpReq = httpReq\<lparr>ReqContentType := ''application/json''\<rparr> in
      case HTTPClient_Do L c httpReq w of
        (Inl err, w') \<Rightarrow> (Returned (None, Some (APIRequestError ''do'' url err)), w')
      | (Inr resp, w') \<Rightarrow>
     (let (isJSON, body') = isJSONResponse resp in
      if \<not> isJSON
      then (Returned (None, Some (APIRequestError ''doPatch'' url (nonJSONError resp body'))), w')
      else if RespStatusCode resp \<noteq> 200
      then classified (DecodeAPIError (json_DecodeFail L) (json_DecodeError L) body resp) w'
      else (Returned (Some resp, None), w'))))"

definition doPut ::
  "('w, 'd) lib \<Rightarrow> Client \<Rightarrow> string \<Rightarrow> string option \<Rightarrow> 'w
     \<Rightarrow> (Response, 'd) ret outcome \<times> 'w" where
  "doPut L c url body w =
     (case NewRequestWithContext L ''PUT'' url (bytes_NewReader body) of
        Inl err \<Rightarrow> (Returned (None, Some (APIRequestError ''new_request'' url err)), w)
      | Inr httpReq \<Rightarrow>
     (let httpReq = httpReq\<lparr>ReqContentType := ''application/json''\<rparr> in
      case HTTPClient_Do L c httpReq w of
        (Inl err, w') \<Rightarrow> (Returned (None, Some (APIRequestError ''do'' url err)), w')
      | (Inr resp, w') \<Rightarrow>
     (let (isJSON, body') = isJSONResponse resp in
      if \<not> isJSON
      then (Returned (None, Some (APIRequestError ''doPut'' url (nonJSONError resp body'))), w')
      else if RespStatusCode resp \<noteq> 200
      then classified (DecodeAPIError (json_DecodeFail L) (json_DecodeError L) body resp) w'
      else (Returned (Some resp, None), w'))))"

definition doDelete ::
  "('w, 'd) lib \<Rightarrow> Client \<Rightarrow> string \<Rightarrow> 'w \<Rightarrow> (Response, 'd) ret outcome \<times> 'w" where
  "doDelete L c url w =
     (case NewRequestWithContext L ''DELETE'' url None of
        Inl err \<Rightarrow> (Returned (None, Some (APIRequestError ''new_request'' url err)), w)
      | Inr httpReq \<Rightarrow>
     (case HTTPClient_Do L c httpReq w of
        (Inl err, w') \<Rightarrow> (Returned (None, Some (APIRequestError ''do'' url err)), w')
      | (Inr resp, w') \<Rightarrow>
     (let (isJSON, body) = isJSONResponse resp in
      if \<not> isJSON
      then (Returned (None, Some (APIRequestError ''doDelete'' url (nonJSONError resp body))), w')
      else if RespStatusCode resp \<noteq> 200 \<and> RespStatusCode resp \<noteq> 204
      then classified (DecodeAPIError (json_DecodeFail L) (json_DecodeError L) None resp) w'
      else (Returned (Some resp, None), w'))))"

section \<open>client.go: the operations\<close>

text \<open>
  What follows a call of a transport helper in every operation but
  \<open>GetConfigurations\<close>: \<^verbatim>\<open>if err != nil { return nil, err }\<close>, then
  \<^verbatim>\<open>defer resp.Body.Close()\<close>, which reads through \<^verbatim>\<open>resp\<close> and faults when it is nil,
  then the rest of the operation on the response.
\<close>

definition withResponse ::
  "(Response, 'd) ret outcome \<times> 'w \<Rightarrow> (Response \<Rightarrow> 'w \<Rightarrow> ('a, 'd) ret outcome \<times> 'w)
     \<Rightarrow> ('a, 'd) ret outcome \<times> 'w" where
  "withResponse r rest =
     (case r of
        (Panic p, w) \<Rightarrow> (Panic p, w)
      | (Returned (resp, Some err), w) \<Rightarrow> (Returned (None, Some err), w)
      | (Returned (None, None), w) \<Rightarrow> (Panic nilDereference, w)
      | (Returned (Some resp, None), w) \<Rightarrow> rest resp w)"

definition paramError :: "string \<Rightarrow> 'd error" where
  "paramError msg = APIRequestError ''param'' [] msg"

definition GetLeases ::
  "('w, 'd) lib \<Rightarrow> Client \<Rightarrow> QueryBuilder option \<Rightarrow> 'w
     \<Rightarrow> (GetLeasesResponse, 'd) ret outcome \<times> 'w" where
  "GetLeases L c req w =
     (case url_Parse L (BaseURL c @ ''/leases'') of
        Inl err \<Rightarrow> (Returned (None, Some (APIRequestError ''parse'' (BaseURL c @ ''/leases'') err)), w)
      | Inr u \<Rightarrow>
     (let u = (case req of None \<Rightarrow> u | Some qb \<Rightarrow> u\<lparr>RawQuery := Encode (BuildQuery qb)\<rparr>) in
      withResponse (doGet L c (url_String L u) w) (\<lambda>resp w'.
        case json_DecodeLeases L (RespBody resp) of
          Inl err \<Rightarrow> (Returned (None, Some (JSONDecodingError err)), w')
        | Inr d \<Rightarrow> (Returned (Some d, None), w'))))"

definition GetLeaseByID ::
  "('w, 'd) lib \<Rightarrow> Client \<Rightarrow> GetLeaseByIDRequest option \<Rightarrow> 'w
     \<Rightarrow> (GetLeaseByIDResponse, 'd) ret outcome \<times> 'w" where
  "GetLeaseByID L c req w =
     (case req of
        None \<Rightarrow> (Returned (None, Some (paramError ''LeaseID is required'')), w)
      | Some (GetLeaseByIDRequest leaseID) \<Rightarrow>
          if leaseID = [] then (Returned (None, Some (paramError ''LeaseID is required'')), w)
          else
            (let leaseURL = BaseURL c @ ''/leases/'' @ leaseID in
             withResponse (doGet L c leaseURL w) (\<lambda>resp w'.
               case json_DecodeLease L (RespBody resp) of
                 Inl err \<Rightarrow> (Returned (None, Some (JSONDecodingError err)), w')
               | Inr d \<Rightarrow> (Returned (Some (GetLeaseByIDResponse d), None), w'))))"

text \<open>
  The body of the two create operations: \<open>leaseTemplateUuid\<close>, and \<open>comments\<close> when
  not empty. The derived lease id: the base64 encoding of the JSON object of
  \<open>userEmail\<close> and \<open>uuid\<close>. Marshalling a map of strings does not fail; the source
  checks the error of the second marshal all the same.
\<close>

definition createLeaseBody :: "('w, 'd) lib \<Rightarrow> string \<Rightarrow> string \<Rightarrow> string" where
  "createLeaseBody L leaseTemplateUUID comments =
     (let body = [(''leaseTemplateUuid'', leaseTemplateUUID)];
          body = (if comments \<noteq> [] then AList.update ''comments'' comments body else body)
      in json_Marshal_map (json_Quote L) body)"

definition json_Marshal_checked :: "(string \<Rightarrow> string) \<Rightarrow> (string \<times> string) list \<Rightarrow> string + string" where
  "json_Marshal_checked quote m = Inr (json_Marshal_map quote m)"

definition CreateLease ::
  "('w, 'd) lib \<Rightarrow> Client \<Rightarrow> CreateLeaseRequest option \<Rightarrow> 'w
     \<Rightarrow> (CreateLeaseResponse, 'd) ret outcome \<times> 'w" where
  "CreateLease L c req w =
     (case req of
        None \<Rightarrow> (Returned (None, Some (paramError ''LeaseTemplateUUID is required'')), w)
      | Some (CreateLeaseRequest leaseTemplateUUID comments) \<Rightarrow>
          if leaseTemplateUUID = []
          then (Returned (None, Some (paramError ''LeaseTemplateUUID is required'')), w)
          else
            (let leaseURL = BaseURL c @ ''/leases'';
                 b = createLeaseBody L leaseTemplateUUID comments
             in withResponse (doPost L c leaseURL (Some b) w) (\<lambda>resp w'.
               case json_DecodeLease L (RespBody resp) of
                 Inl err \<Rightarrow> (Returned (None, Some (JSONDecodingError err)), w')
               | Inr d \<Rightarrow>
                  (let leaseIdComponents = [(''userEmail'', UserEmail d), (''uuid'', UUID d)] in
                   case json_Marshal_checked (json_Quote L) leaseIdComponents of
                     Inl err \<Rightarrow>
                       (Returned (None, Some (WrappedError
                          (''failed to marshal lease ID components: '' @ err))), w')
                   | Inr leaseId \<Rightarrow>
                       (Returned (Some (CreateLeaseResponse
                          (d\<lparr>LeaseId := EncodeToString leaseId\<rparr>)), None), w')))))"

text \<open>
  \<open>CreateLeaseAsUser\<close> signs a token for the user, builds the request itself and sends
  it through a client without the \<^verbatim>\<open>authTransport\<close>; it goes from the response
  straight to the status code.
\<close>

definition CreateLeaseAsUser ::
  "('w, 'd) lib \<Rightarrow> Client \<Rightarrow> CreateLeaseRequest option \<Rightarrow> string \<Rightarrow> string \<Rightarrow> 'w
     \<Rightarrow> (CreateLeaseResponse, 'd) ret outcome \<times> 'w" where
  "CreateLeaseAsUser L c req userEmail jwtSecret w =
     (case req of
        None \<Rightarrow> (Returned (None, Some (paramError ''LeaseTemplateUUID is required'')), w)
      | Some (CreateLeaseRequest leaseTemplateUUID comments) \<Rightarrow>
          if leaseTemplateUUID = []
          then (Returned (None, Some (paramError ''LeaseTemplateUUID is required'')), w)
          else
            (let leaseURL = BaseURL c @ ''/leases'';
                 b = createLeaseBody L leaseTemplateUUID comments;
                 userClaims = NewUserUserClaims userEmail
             in case GenerateJWT L userClaims jwtSecret (15 * time_Minute) w of
                  Inl err \<Rightarrow> (Returned (None, Some (APIRequestError ''jwt_gen'' leaseURL err)), w)
                | Inr jwt \<Rightarrow>
               (case NewRequestWithContext L ''POST'' leaseURL (bytes_NewReader (Some b)) of
                  Inl err \<Rightarrow> (Returned (None, Some (APIRequestError ''new_request'' leaseURL err)), w)
                | Inr httpReq \<Rightarrow>
               (let httpReq = httpReq\<lparr>ReqContentType := ''application/json'',
                                       ReqAuthorization := ''Bearer '' @ jwt\<rparr> in
                case roundTrip L httpReq w of
                  (Inl err, w') \<Rightarrow> (Returned (None, Some (APIRequestError ''do'' leaseURL err)), w')
                | (Inr resp, w') \<Rightarrow>
                    if RespStatusCode resp \<noteq> 200 \<and> RespStatusCode resp \<noteq> 201
                    then classified
                           (DecodeAPIError (json_DecodeFail L) (json_DecodeError L) (Some b) resp) w'
                    else
                      (case json_DecodeLease L (RespBody resp) of
                         Inl err \<Rightarrow> (Returned (None, Some (JSONDecodingError err)), w')
                       | Inr d \<Rightarrow>
                          (let leaseIdComponents = [(''userEmail'', UserEmail d), (''uuid'', UUID d)] in
                           case json_Marshal_checked (json_Quote L) leaseIdComponents of
                             Inl err \<Rightarrow>
                               (Returned (None, Some (WrappedError
                                  (''failed to marshal lease ID components: '' @ err))), w')
                           | Inr leaseId \<Rightarrow>
                               (Returned (Some (CreateLeaseResponse
                                  (d\<lparr>LeaseId := EncodeToString leaseId\<rparr>)), None), w')))))))"

text \<open>
  \<open>GetConfigurations\<close> assigns nil to \<^verbatim>\<open>err\<close> right after the call of \<open>doGet\<close>, so its
  check of \<^verbatim>\<open>err\<close> never returns, and \<^verbatim>\<open>defer resp.Body.Close()\<close> reads through
  \<^verbatim>\<open>resp\<close> whatever \<open>doGet\<close> returned.
\<close>

definition GetConfigurations ::
  "('w, 'd) lib \<Rightarrow> Client \<Rightarrow> 'w \<Rightarrow> ('d GlobalConfiguration, 'd) ret outcome \<times> 'w" where
  "GetConfigurations L c w =
     (let configURL = BaseURL c @ ''/configurations'' in
      case doGet L c configURL w of
        (Panic p, w') \<Rightarrow> (Panic p, w')
      | (Returned (resp, err), w') \<Rightarrow>
         (let err = None in
          if err \<noteq> None then (Returned (None, err), w')
          else
            (case resp of
               None \<Rightarrow> (Panic nilDereference, w')
             | Some resp \<Rightarrow>
                (case json_DecodeConfiguration L (RespBody resp) of
                   Inl e \<Rightarrow> (Returned (None, Some (JSONDecodingError e)), w')
                 | Inr d \<Rightarrow> (Returned (Some d, None), w')))))"

definition UpdateLease ::
  "('w, 'd) lib \<Rightarrow> Client \<Rightarrow> UpdateLeaseRequest option \<Rightarrow> 'w
     \<Rightarrow> (UpdateLeaseResponse, 'd) ret outcome \<times> 'w" where
  "UpdateLease L c req w =
     (case req of
        None \<Rightarrow> (Returned (None, Some (paramError ''LeaseID is required'')), w)
      | Some (UpdateLeaseRequest leaseID maxSpend budgetThresholds expirationDate durationThresholds) \<Rightarrow>
          if leaseID = [] then (Returned (None, Some (paramError ''LeaseID is required'')), w)
          else
            (let urlStr = BaseURL c @ ''/leases/'' @ leaseID in
             case json_MarshalUpdateLease L
                    (UpdateLeaseRequest leaseID maxSpend budgetThresholds expirationDate
                       durationThresholds) of
               Inl err \<Rightarrow> (Returned (None, Some (APIRequestError ''marshal'' urlStr err)), w)
             | Inr body \<Rightarrow>
                 withResponse (doPatch L c urlStr (Some body) w) (\<lambda>resp w'.
                   case json_DecodeLease L (RespBody resp) of
                     Inl err \<Rightarrow> (Returned (None, Some (JSONDecodingError err)), w')
                   | Inr d \<Rightarrow> (Returned (Some (UpdateLeaseResponse d), None), w'))))"

text \<open>\<open>ReviewLease\<close> returns an error only: \<open>None\<close> is nil.\<close>

definition ReviewLease ::
  "('w, 'd) lib \<Rightarrow> Client \<Rightarrow> ReviewLeaseRequest option \<Rightarrow> 'w \<Rightarrow> 'd error option outcome \<times> 'w" where
  "ReviewLease L c req w =
     (case req of
        None \<Rightarrow> (Returned (Some (paramError ''LeaseID and Action are required'')), w)
      | Some (ReviewLeaseRequest leaseID action) \<Rightarrow>
          if leaseID = [] \<or> (action \<noteq> ReviewApprove \<and> action \<noteq> ReviewDeny)
          then (Returned (Some (paramError ''LeaseID and Action are required'')), w)
          else
            (let urlStr = BaseURL c @ ''/leases/'' @ leaseID @ ''/review'' in
             case json_Marshal_checked (json_Quote L) [(''action'', action)] of
               Inl err \<Rightarrow> (Returned (Some (APIRequestError ''marshal'' urlStr err)), w)
             | Inr body \<Rightarrow>
                (case doPost L c urlStr (Some body) w of
                   (Panic p, w') \<Rightarrow> (Panic p, w')
                 | (Returned (resp, Some err), w') \<Rightarrow> (Returned (Some err), w')
                 | (Returned (None, None), w') \<Rightarrow> (Panic nilDereference, w')
                 | (Returned (Some resp, None), w') \<Rightarrow> (Returned None, w'))))"

section \<open>client.go: paginateAll\<close>

text \<open>
  \<open>paginateAll\<close> is generic in the item type \<open>'t\<close> and the request type \<open>'r\<close>; the
  page fetch and the method \<^verbatim>\<open>SetPageIdentifier\<close> of the request are its parameters.
  The fetch returns items, the next page identifier and an error, may fault, and may
  change the world. The loop has no bound: the model is a partial function whose value
  is \<open>None\<close> when the loop never ends. The result is the pair \<^verbatim>\<open>([]T, error)\<close>; the nil
  slice is the empty list. The request is a pointer, so the caller's request is left
  with the last cursor set; the model threads the request through the loop and does
  not return it.
\<close>

partial_function (option) paginateAll_loop ::
  "('r \<Rightarrow> 'w \<Rightarrow> ('t list \<times> string \<times> 'e option) outcome \<times> 'w)
     \<Rightarrow> (string \<Rightarrow> 'r \<Rightarrow> 'r outcome) \<Rightarrow> 'r \<Rightarrow> 't list \<Rightarrow> 'w
     \<Rightarrow> (('t list \<times> 'e option) outcome \<times> 'w) option" where
  "paginateAll_loop fetchPage setPageIdentifier req allItems w =
     (case fetchPage req w of
        (Panic p, w') \<Rightarrow> Some (Panic p, w')
      | (Returned (items, nextPage, Some err), w') \<Rightarrow> Some (Returned ([], Some err), w')
      | (Returned (items, nextPage, None), w') \<Rightarrow>
          (let allItems = allItems @ items in
           if nextPage = [] then Some (Returned (allItems, None), w')
           else
             (case setPageIdentifier nextPage req of
                Panic p \<Rightarrow> Some (Panic p, w')
              | Returned req' \<Rightarrow> paginateAll_loop fetchPage setPageIdentifier req' allItems w')))"

definition paginateAll ::
  "('r \<Rightarrow> 'w \<Rightarrow> ('t list \<times> string \<times> 'e option) outcome \<times> 'w)
     \<Rightarrow> (string \<Rightarrow> 'r \<Rightarrow> 'r outcome) \<Rightarrow> 'r \<Rightarrow> 'w
     \<Rightarrow> (('t list \<times> 'e option) outcome \<times> 'w) option" where
  "paginateAll fetchPage setPageIdentifier req w =
     paginateAll_loop fetchPage setPageIdentifier req [] w"

text \<open>\<open>FetchAllLeases\<close>: the page fetch is \<open>GetLeases\<close> on the request.\<close>

definition fetchLeasesPage ::
  "('w, 'd) lib \<Rightarrow> Client \<Rightarrow> GetLeasesRequest option \<Rightarrow> 'w
     \<Rightarrow> (Lease list \<times> string \<times> 'd error option) outcome \<times> 'w" where
  "fetchLeasesPage L c r w =
     (case GetLeases L c (Some (QB_GetLeasesRequest r)) w of
        (Panic p, w') \<Rightarrow> (Panic p, w')
      | (Returned (resp, Some err), w') \<Rightarrow> (Returned ([], [], Some err), w')
      | (Returned (None, None), w') \<Rightarrow> (Panic nilDereference, w')
      | (Returned (Some (GetLeasesResponse leases nextPageIdentifier), None), w') \<Rightarrow>
          (Returned (leases, nextPageIdentifier, None), w'))"

definition FetchAllLeases ::
  "('w, 'd) lib \<Rightarrow> Client \<Rightarrow> GetLeasesRequest option \<Rightarrow> 'w
     \<Rightarrow> ((GetLeasesResponse, 'd) ret outcome \<times> 'w) option" where
  "FetchAllLeases L c req w =
     (case paginateAll (fetchLeasesPage L c) GetLeasesRequest_SetPageIdentifier req w of
        None \<Rightarrow> None
      | Some (Panic p, w') \<Rightarrow> Some (Panic p, w')
      | Some (Returned (allLeases, Some err), w') \<Rightarrow> Some (Returned (None, Some err), w')
      | Some (Returned (allLeases, None), w') \<Rightarrow>
          Some (Returned (Some (GetLeasesResponse allLeases []), None), w'))"

subsection \<open>Runs of the page fetch\<close>

text \<open>
  To speak of what the fetch did during a run of the loop: \<open>fetchAll\<close> calls the fetch
  once on each request of a list, in order, each call in the world the call before
  left, and gives the answers and the last world. \<open>pageAnswers\<close> are the answers of
  fetches that succeed with the given items and next page identifiers, and
  \<open>cursorsSet\<close> says that every one of these identifiers is non-empty.
\<close>

fun fetchAll :: "('r \<Rightarrow> 'w \<Rightarrow> 'a \<times> 'w) \<Rightarrow> 'r list \<Rightarrow> 'w \<Rightarrow> 'a list \<times> 'w" where
  "fetchAll fetchPage [] w = ([], w)"
| "fetchAll fetchPage (r # rs) w =
     (case fetchPage r w of
        (a, w') \<Rightarrow> (case fetchAll fetchPage rs w' of (as, w'') \<Rightarrow> (a # as, w'')))"

definition pageAnswers ::
  "('t list \<times> string) list \<Rightarrow> ('t list \<times> string \<times> 'e option) outcome list" where
  "pageAnswers ps = map (\<lambda>(items, nextPage). Returned (items, nextPage, None)) ps"

definition cursorsSet :: "('t list \<times> string) list \<Rightarrow> bool" where
  "cursorsSet ps = list_all (\<lambda>(items, nextPage). nextPage \<noteq> []) ps"

text \<open>
  The requests that a run presents to the fetch when the pages give the cursors
  \<open>cs\<close>: the first is the caller's, each later one is the one before with its page
  cursor set to the identifier just returned. \<open>None\<close> when setting a cursor faults.
\<close>

fun cursorRequests :: "(string \<Rightarrow> 'r \<Rightarrow> 'r outcome) \<Rightarrow> 'r \<Rightarrow> string list \<Rightarrow> 'r list option" where
  "cursorRequests setPageIdentifier req [] = Some [req]"
| "cursorRequests setPageIdentifier req (c # cs) =
     (case setPageIdentifier c req of
        Panic p \<Rightarrow> None
      | Returned req' \<Rightarrow>
          (case cursorRequests setPageIdentifier req' cs of
             None \<Rightarrow> None
           | Some reqs \<Rightarrow> Some (req # reqs)))"

section \<open>The derived lease id in the specification's words\<close>

text \<open>
  The base64 encoding of the canonical JSON object
  \<^verbatim>\<open>{"userEmail":<userEmail>,"uuid":<uuid>}\<close> of a lease, the strings encoded by the
  JSON encoder \<open>quote\<close>.
\<close>

definition canonicalLeaseId :: "(string \<Rightarrow> string) \<Rightarrow> Lease \<Rightarrow> string" where
  "canonicalLeaseId quote d =
     EncodeToString
       (''{'' @ quote ''userEmail'' @ '':'' @ quote (UserEmail d) @ '',''
          @ quote ''uuid'' @ '':'' @ quote (UUID d) @ ''}'')"

section \<open>Fixtures\<close>

text \<open>
  Concrete inputs for the closed theorems below, after the fixtures of the repository's tests:
  a fail envelope, an error envelope and a body that is no JSON, with decoders that
  answer on exactly these bodies as encoding/json does (the fail envelope decodes into
  the error target too, its \<open>data\<close> object going to \<open>Data\<close>; the error envelope decodes
  into the fail target, leaving \<open>Errors\<close> alone; anything else is a syntax error that
  leaves the target untouched). The payload type is the JSON text of \<open>data\<close>.
\<close>

definition fixtureFailJSON :: string where
  \<open>fixtureFailJSON = ''{"status":"fail","data":{"errors":[{"message":"fail error"}]}}''\<close>

definition fixtureErrorJSON :: string where
  \<open>fixtureErrorJSON = ''{"status":"error","message":"some error","code":400}''\<close>

definition fixtureDecodeFail :: failDecoder where
  "fixtureDecodeFail body target =
     (if body = fixtureFailJSON
      then (True, target\<lparr>fb_Status := ''fail'', fb_Errors := [FailErrorDetail ''fail error'']\<rparr>)
      else if body = fixtureErrorJSON
      then (True, target\<lparr>fb_Status := ''error''\<rparr>)
      else (False, target))"

definition fixtureDecodeError :: "string errorDecoder" where
  \<open>fixtureDecodeError body target =
     (if body = fixtureErrorJSON
      then (True, target\<lparr>eb_Status := ''error'', eb_Message := ''some error'', eb_Code := 400\<rparr>)
      else if body = fixtureFailJSON
      then (True, target\<lparr>eb_Status := ''fail'',
                            eb_Data := Some ''{"errors":[{"message":"fail error"}]}''\<rparr>)
      else (False, target))\<close>

definition fixtureResponse :: "int \<Rightarrow> string \<Rightarrow> string \<Rightarrow> Response" where
  "fixtureResponse code path body =
     \<lparr>RespStatusCode = code, RespContentType = ''application/json'', RespBody = body,
      RespRequest = Some \<lparr>Method = ''GET'', ReqURL = Some \<lparr>Path = path, RawQuery = []\<rparr>,
        ReqContentType = [], ReqAuthorization = [], ReqBody = None\<rparr>\<rparr>"

text \<open>
  A library for the closed theorems on the operations. The world is the list of the
  requests sent so far; \<open>server\<close> answers a request with a network error or with a
  status code, a content type and a body, and the response carries its request, as
  net/http arranges. URLs are those of \<open>https://isb.example.com\<close>: the path is what
  follows the host. Strings are quoted as JSON quotes a string without special
  characters.
\<close>

definition fixtureQuote :: "string \<Rightarrow> string" where
  "fixtureQuote s = [CHR 0x22] @ s @ [CHR 0x22]"

definition zeroLease :: Lease where
  "zeroLease =
     \<lparr>UserEmail = [], UUID = [], Status = [], OriginalLeaseTemplateUuid = [],
      OriginalLeaseTemplateName = [], LeaseDurationInHours = 0, MaxSpend = Float64 0,
      BudgetThresholds = [], DurationThresholds = [], Comments = [], AwsAccountId = [],
      LeaseId = [], StartDate = [], ExpirationDate = [], EndDate = [],
      TotalCostAccrued = Float64 0, Meta = MetaData [] [] []\<rparr>"

definition fixtureLeaseJSON :: string where
  \<open>fixtureLeaseJSON =
     ''{"status":"success","data":{"userEmail":"user@example.com","uuid":"lease123","status":"Active"}}''\<close>

definition fixtureLease :: Lease where
  "fixtureLease = zeroLease\<lparr>UserEmail := ''user@example.com'', UUID := ''lease123'', Status := ''Active''\<rparr>"

definition fixtureDecodeLease :: "string \<Rightarrow> string + Lease" where
  "fixtureDecodeLease body =
     (if body = fixtureLeaseJSON then Inr fixtureLease else Inl ''invalid character'')"

definition fixtureLib ::
  "(Request \<Rightarrow> string + int \<times> string \<times> string) \<Rightarrow> (Request list, string) lib" where
  "fixtureLib server =
     \<lparr>url_Parse = (\<lambda>s. Inr \<lparr>Path = dropWhile (\<lambda>c. c \<noteq> CHR ''/'') (drop 8 s), RawQuery = []\<rparr>),
      url_String = (\<lambda>u. ''https://isb.example.com'' @ Path u
                         @ (if RawQuery u = [] then [] else ''?'' @ RawQuery u)),
      roundTrip = (\<lambda>req sent.
         (case server req of
            Inl err \<Rightarrow> Inl err
          | Inr (code, contentType, body) \<Rightarrow>
              Inr \<lparr>RespStatusCode = code, RespContentType = contentType, RespBody = body,
                   RespRequest = Some req\<rparr>,
          sent @ [req])),
      json_DecodeFail = fixtureDecodeFail,
      json_DecodeError = fixtureDecodeError,
      json_DecodeLease = fixtureDecodeLease,
      json_DecodeLeases = (\<lambda>body. Inl ''invalid character''),
      json_DecodeConfiguration = (\<lambda>body. Inl ''invalid character''),
      json_Quote = fixtureQuote,
      json_MarshalUpdateLease = (\<lambda>r. Inr ''{}''),
      time_Now = (\<lambda>sent. 0),
      jwt_SignedString = (\<lambda>claims secret. Inr ''signed.user.token'')\<rparr>"

definition fixtureClient :: Client where
  "fixtureClient = NewClient ''https://isb.example.com'' ''token''"

text \<open>Three servers: one is unreachable, one answers every request with an HTML
  error page and status 500, one answers every request with the lease above.\<close>

definition unreachableServer :: "Request \<Rightarrow> string + int \<times> string \<times> string" where
  "unreachableServer req = Inl ''dial tcp: connection refused''"

definition htmlErrorServer :: "Request \<Rightarrow> string + int \<times> string \<times> string" where
  "htmlErrorServer req = Inr (500, ''text/html'', ''<html><body>Error</body></html>'')"

definition leaseServer :: "Request \<Rightarrow> string + int \<times> string \<times> string" where
  "leaseServer req = Inr (200, ''application/json'', fixtureLeaseJSON)"

text \<open>
  A page fetch that answers from a script, for the closed theorems on \<open>paginateAll\<close>:
  the world is the script not yet used and the requests seen so far; each call takes
  the next answer of the script, a page with its next page identifier or a failure,
  and records its request. When the script is used up the fetch answers with an empty
  last page.
\<close>

datatype ('t, 'e) answer = Page "'t list" string | Failure 'e

fun scriptedFetch ::
  "'r \<Rightarrow> ('t, 'e) answer list \<times> 'r list
     \<Rightarrow> ('t list \<times> string \<times> 'e option) outcome \<times> (('t, 'e) answer list \<times> 'r list)" where
  "scriptedFetch req ([], seen) = (Returned ([], [], None), ([], seen @ [req]))"
| "scriptedFetch req (Page items nextPage # script, seen) =
     (Returned (items, nextPage, None), (script, seen @ [req]))"
| "scriptedFetch req (Failure err # script, seen) =
     (Returned ([], [], Some err), (script, seen @ [req]))"

text \<open>A server that answers every request with status 404 and the fail envelope.\<close>

definition notFoundServer :: "Request \<Rightarrow> string + int \<times> string \<times> string" where
  "notFoundServer req = Inr (404, ''application/json'', fixtureFailJSON)"

section \<open>Unfolding the fixtures\<close>

lemmas fixture_defs =
  fixtureResponse_def fixtureDecodeFail_def fixtureDecodeError_def
  fixtureFailJSON_def fixtureErrorJSON_def failBody_zero_def errorBody_zero_def

lemmas client_fixture_defs =
  fixtureLib_def fixtureClient_def NewClient_def fixtureQuote_def fixtureDecodeLease_def
  fixtureLeaseJSON_def fixtureLease_def zeroLease_def leaseServer_def htmlErrorServer_def
  unreachableServer_def notFoundServer_def

lemmas transport_defs =
  NewRequestWithContext_def bytes_NewReader_def HTTPClient_Do_def authTransport_RoundTrip_def
  isJSONResponse_def nonJSONError_def classified_def withResponse_def paramError_def
  HasPrefix_def Let_def

section \<open>Properties of the error classifier\<close>

lemma HasPrefix_prefix: "HasPrefix s p = prefix p s"
  by (auto simp add: HasPrefix_def prefix_def min_def dest: arg_cong [where f = "take (length p)"])
    (metis append_eq_conv_conj)

lemma DecodeAPIError_returns:
  assumes "RespRequest resp = Some rq" and "ReqURL rq = Some u"
  shows "\<exists>e. DecodeAPIError decodeFail decodeError reqBody resp = Returned e"
  using assms by (simp add: DecodeAPIError_def Let_def split: prod.split)

text \<open>
  C1. For a response that carries its request URL (as every response of net/http does;
  without one the classifier faults on \<^verbatim>\<open>resp.Request.URL.Path\<close>), the classifier
  returns an error for every status code and every body, and whenever the
  status-specific decode did not succeed that error is the one the fallback chain
  gives: the generic fail-response error with the status string, the status code and
  the detail errors; else the generic server error tagged with the actual status code;
  else the generic response error with the raw status code and the raw body.
\<close>

theorem DecodeAPIError_fallback_chain:
  assumes "RespRequest resp = Some rq" and "ReqURL rq = Some u"
  shows "(\<exists>e. DecodeAPIError decodeFail decodeError reqBody resp = Returned e)
       \<and> (\<not> statusSpecificDecodeSucceeded decodeFail decodeError resp \<longrightarrow>
            DecodeAPIError decodeFail decodeError reqBody resp =
              Returned (fallbackChainResult decodeFail decodeError resp))"
proof
  show "\<exists>e. DecodeAPIError decodeFail decodeError reqBody resp = Returned e"
    using assms by (rule DecodeAPIError_returns)
next
  obtain ok1 fb1 where f: "decodeFail (RespBody resp) failBody_zero = (ok1, fb1)"
    by (cases "decodeFail (RespBody resp) failBody_zero")
  obtain ok2 eb2 where e: "decodeError (RespBody resp) errorBody_zero = (ok2, eb2)"
    by (cases "decodeError (RespBody resp) errorBody_zero")
  note defs = DecodeAPIError_def DecodeAPIError_fallback_def fallbackChainResult_def
    statusSpecificDecodeSucceeded_def failBodyAfterSwitch_def errorBodyAfterSwitch_def
  consider "RespStatusCode resp = 400" | "RespStatusCode resp = 401" | "RespStatusCode resp = 403"
    | "RespStatusCode resp = 404" | "RespStatusCode resp = 409" | "RespStatusCode resp = 500"
    | "RespStatusCode resp \<noteq> 400 \<and> RespStatusCode resp \<noteq> 401 \<and> RespStatusCode resp \<noteq> 403
       \<and> RespStatusCode resp \<noteq> 404 \<and> RespStatusCode resp \<noteq> 409 \<and> RespStatusCode resp \<noteq> 500"
    by blast
  then show "\<not> statusSpecificDecodeSucceeded decodeFail decodeError resp \<longrightarrow>
        DecodeAPIError decodeFail decodeError reqBody resp =
          Returned (fallbackChainResult decodeFail decodeError resp)"
  proof cases
    case 1 with assms f show ?thesis by (simp add: defs Let_def split: prod.split)
  next
    case 2 with assms f show ?thesis by (simp add: defs Let_def split: prod.split)
  next
    case 3 with assms f show ?thesis by (simp add: defs Let_def split: prod.split)
  next
    case 4 with assms f show ?thesis by (simp add: defs Let_def split: prod.split)
  next
    case 5 with assms f show ?thesis by (simp add: defs Let_def split: prod.split)
  next
    case 6 with assms e show ?thesis by (simp add: defs Let_def split: prod.split)
  next
    case 7 with assms show ?thesis by (simp add: defs Let_def split: prod.split)
  qed
qed

theorem DecodeAPIError_fallback_chain_witness:
  "\<not> statusSpecificDecodeSucceeded fixtureDecodeFail fixtureDecodeError
        (fixtureResponse 418 ''/other'' fixtureFailJSON)
   \<and> DecodeAPIError fixtureDecodeFail fixtureDecodeError None
        (fixtureResponse 418 ''/other'' fixtureFailJSON)
       = Returned (FailResponseError ''fail'' [FailErrorDetail ''fail error''] 418)
   \<and> DecodeAPIError fixtureDecodeFail fixtureDecodeError None
        (fixtureResponse 418 ''/other'' fixtureErrorJSON)
       = Returned (ServerError \<lparr>StatusCode = 418, Body = [], Message = ''some error''\<rparr> 400 None)
   \<and> DecodeAPIError fixtureDecodeFail fixtureDecodeError None
        (fixtureResponse 418 ''/other'' ''teapot error'')
       = Returned (APIResponseErr \<lparr>StatusCode = 418, Body = ''teapot error'', Message = []\<rparr>)
   \<and> DecodeAPIError fixtureDecodeFail fixtureDecodeError None
        (fixtureResponse 404 ''/leases/abc'' fixtureErrorJSON)
       = Returned (ServerError \<lparr>StatusCode = 404, Body = [], Message = ''some error''\<rparr> 400 None)"
  using
    DecodeAPIError_fallback_chain
      [of "fixtureResponse 418 ''/other'' fixtureFailJSON" _ _ fixtureDecodeFail fixtureDecodeError None]
    DecodeAPIError_fallback_chain
      [of "fixtureResponse 418 ''/other'' fixtureErrorJSON" _ _ fixtureDecodeFail fixtureDecodeError None]
    DecodeAPIError_fallback_chain
      [of "fixtureResponse 418 ''/other'' ''teapot error''" _ _ fixtureDecodeFail fixtureDecodeError None]
    DecodeAPIError_fallback_chain
      [of "fixtureResponse 404 ''/leases/abc'' fixtureErrorJSON" _ _ fixtureDecodeFail fixtureDecodeError None]
  by (simp add: statusSpecificDecodeSucceeded_def fallbackChainResult_def
      failBodyAfterSwitch_def errorBodyAfterSwitch_def fixture_defs)

text \<open>
  When decoding the same body a second time into the result of the first decode
  changes nothing (as when encoding/json stores the same members again), the chain is
  the one from fresh targets: the status-specific decode does not show in it.
\<close>

lemma fallbackChainResult_fresh_targets:
  assumes "\<And>t. decodeFail (RespBody resp) (snd (decodeFail (RespBody resp) t))
             = decodeFail (RespBody resp) t"
    and "\<And>t. decodeError (RespBody resp) (snd (decodeError (RespBody resp) t))
             = decodeError (RespBody resp) t"
  shows "fallbackChainResult decodeFail decodeError resp
         = (let asFail = decodeFail (RespBody resp) failBody_zero;
                asError = decodeError (RespBody resp) errorBody_zero
            in if fst asFail \<and> fb_Status (snd asFail) = ''fail''
               then FailResponseError ''fail'' (fb_Errors (snd asFail)) (RespStatusCode resp)
               else if fst asError \<and> eb_Status (snd asError) = ''error''
               then ServerError
                      \<lparr>StatusCode = RespStatusCode resp, Body = [],
                       Message = eb_Message (snd asError)\<rparr>
                      (eb_Code (snd asError)) (eb_Data (snd asError))
               else APIResponseErr
                      \<lparr>StatusCode = RespStatusCode resp, Body = RespBody resp, Message = []\<rparr>)"
  using assms
  by (auto simp add: fallbackChainResult_def failBodyAfterSwitch_def errorBodyAfterSwitch_def Let_def)

text \<open>
  C2. A 404 whose body decodes as a fail envelope with status \<open>fail\<close> is classified by
  the prefix of the request URL path: \<open>/leases/\<close> gives Lease-Not-Found,
  \<open>/leaseTemplates/\<close> Lease-Template-Not-Found, \<open>/accounts/\<close> Account-Not-Found and any
  other path the generic Not-Found, each with the envelope's detail errors; a 409 gives
  the four Conflict errors in the same way.
\<close>

theorem DecodeAPIError_not_found_conflict_by_path:
  assumes "RespRequest resp = Some rq" and "ReqURL rq = Some u"
    and "decodeFail (RespBody resp) failBody_zero = (True, fb)" and "fb_Status fb = ''fail''"
  shows "(RespStatusCode resp = 404 \<longrightarrow>
           DecodeAPIError decodeFail decodeError reqBody resp = Returned
            (if HasPrefix (Path u) ''/leases/''
             then LeaseNotFoundError
                    \<lparr>StatusCode = 404, Body = [], Message = ''lease not found''\<rparr> (fb_Errors fb)
             else if HasPrefix (Path u) ''/leaseTemplates/''
             then LeaseTemplateNotFoundError
                    \<lparr>StatusCode = 404, Body = [], Message = ''lease template not found''\<rparr> (fb_Errors fb)
             else if HasPrefix (Path u) ''/accounts/''
             then AccountNotFoundError
                    \<lparr>StatusCode = 404, Body = [], Message = ''account not found''\<rparr> (fb_Errors fb)
             else NotFoundError
                    \<lparr>StatusCode = 404, Body = [], Message = ''not found''\<rparr> (fb_Errors fb)))
       \<and> (RespStatusCode resp = 409 \<longrightarrow>
           DecodeAPIError decodeFail decodeError reqBody resp = Returned
            (if HasPrefix (Path u) ''/leases/''
             then LeaseConflictError
                    \<lparr>StatusCode = 409, Body = [], Message = ''lease conflict''\<rparr> (fb_Errors fb)
             else if HasPrefix (Path u) ''/leaseTemplates/''
             then LeaseTemplateConflictError
                    \<lparr>StatusCode = 409, Body = [], Message = ''lease template conflict''\<rparr> (fb_Errors fb)
             else if HasPrefix (Path u) ''/accounts/''
             then AccountConflictError
                    \<lparr>StatusCode = 409, Body = [], Message = ''account conflict''\<rparr> (fb_Errors fb)
             else ConflictError
                    \<lparr>StatusCode = 409, Body = [], Message = ''conflict''\<rparr> (fb_Errors fb)))"
  using assms by (simp add: DecodeAPIError_def)

theorem DecodeAPIError_not_found_conflict_by_path_witness:
  "DecodeAPIError fixtureDecodeFail fixtureDecodeError None
      (fixtureResponse 404 ''/leases/abc'' fixtureFailJSON)
     = Returned (LeaseNotFoundError
         \<lparr>StatusCode = 404, Body = [], Message = ''lease not found''\<rparr> [FailErrorDetail ''fail error''])
   \<and> DecodeAPIError fixtureDecodeFail fixtureDecodeError None
      (fixtureResponse 404 ''/leaseTemplates/abc'' fixtureFailJSON)
     = Returned (LeaseTemplateNotFoundError
         \<lparr>StatusCode = 404, Body = [], Message = ''lease template not found''\<rparr>
         [FailErrorDetail ''fail error''])
   \<and> DecodeAPIError fixtureDecodeFail fixtureDecodeError None
      (fixtureResponse 404 ''/accounts/abc'' fixtureFailJSON)
     = Returned (AccountNotFoundError
         \<lparr>StatusCode = 404, Body = [], Message = ''account not found''\<rparr> [FailErrorDetail ''fail error''])
   \<and> DecodeAPIError fixtureDecodeFail fixtureDecodeError None
      (fixtureResponse 404 ''/other'' fixtureFailJSON)
     = Returned (NotFoundError
         \<lparr>StatusCode = 404, Body = [], Message = ''not found''\<rparr> [FailErrorDetail ''fail error''])
   \<and> DecodeAPIError fixtureDecodeFail fixtureDecodeError None
      (fixtureResponse 409 ''/leases/123'' fixtureFailJSON)
     = Returned (LeaseConflictError
         \<lparr>StatusCode = 409, Body = [], Message = ''lease conflict''\<rparr> [FailErrorDetail ''fail error''])
   \<and> DecodeAPIError fixtureDecodeFail fixtureDecodeError None
      (fixtureResponse 409 ''/other'' fixtureFailJSON)
     = Returned (ConflictError
         \<lparr>StatusCode = 409, Body = [], Message = ''conflict''\<rparr> [FailErrorDetail ''fail error''])"
  using
    DecodeAPIError_not_found_conflict_by_path
      [of "fixtureResponse 404 ''/leases/abc'' fixtureFailJSON" _ _ fixtureDecodeFail _ fixtureDecodeError None]
    DecodeAPIError_not_found_conflict_by_path
      [of "fixtureResponse 404 ''/leaseTemplates/abc'' fixtureFailJSON" _ _ fixtureDecodeFail _ fixtureDecodeError None]
    DecodeAPIError_not_found_conflict_by_path
      [of "fixtureResponse 404 ''/accounts/abc'' fixtureFailJSON" _ _ fixtureDecodeFail _ fixtureDecodeError None]
    DecodeAPIError_not_found_conflict_by_path
      [of "fixtureResponse 404 ''/other'' fixtureFailJSON" _ _ fixtureDecodeFail _ fixtureDecodeError None]
    DecodeAPIError_not_found_conflict_by_path
      [of "fixtureResponse 409 ''/leases/123'' fixtureFailJSON" _ _ fixtureDecodeFail _ fixtureDecodeError None]
    DecodeAPIError_not_found_conflict_by_path
      [of "fixtureResponse 409 ''/other'' fixtureFailJSON" _ _ fixtureDecodeFail _ fixtureDecodeError None]
  by (simp add: fixture_defs HasPrefix_def)

lemma prefix_slash_split:
  assumes "prefix L (pfx @ CHR ''/'' # rest)" and "pfx \<noteq> []"
    and "L = ''/leases/'' \<or> L = ''/leaseTemplates/'' \<or> L = ''/accounts/''"
  shows "prefix L (pfx @ ''/'')"
proof -
  from assms(1) consider "prefix L pfx" | us where "L = pfx @ us" "prefix us (CHR ''/'' # rest)"
    by (auto simp add: prefix_append)
  then show ?thesis
  proof cases
    case 1 then show ?thesis by (simp add: prefix_prefix)
  next
    case 2
    show ?thesis
    proof (cases us)
      case Nil with 2 show ?thesis by simp
    next
      case (Cons c us')
      with 2 have L: "L = pfx @ CHR ''/'' # us'" by (simp add: prefix_Cons)
      with assms(2,3) have "us' = []"
        by (auto simp add: append_eq_Cons_conv Cons_eq_append_conv)
      with L show ?thesis by simp
    qed
  qed
qed

lemma resourcePrefixed_base_prefix:
  assumes "resourcePrefixed (pfx @ CHR ''/'' # rest)" and "pfx \<noteq> []"
  shows "resourcePrefixed (pfx @ ''/'')"
  using assms prefix_slash_split [of _ pfx rest]
  unfolding resourcePrefixed_def HasPrefix_prefix by blast


text \<open>
  C9 (as amended). The classifier picks a resource-specific Not-Found or Conflict error
  only when the request URL path begins literally with \<open>/leases/\<close>, \<open>/leaseTemplates/\<close>
  or \<open>/accounts/\<close>: for any other path a 404 or 409 with a fail envelope gives the
  generic error. When the base URL has a non-empty path prefix, the request path is
  the prefix followed by the resource path, and it begins with none of the three
  literals provided the prefix followed by a slash does not (its first segment is not
  \<open>leases\<close>, \<open>leaseTemplates\<close> or \<open>accounts\<close>; so for \<open>/api\<close>).
\<close>

theorem DecodeAPIError_base_path_prefix:
  assumes "RespRequest resp = Some rq" and "ReqURL rq = Some u"
    and "decodeFail (RespBody resp) failBody_zero = (True, fb)" and "fb_Status fb = ''fail''"
  shows "(\<not> resourcePrefixed (Path u) \<longrightarrow>
            (RespStatusCode resp = 404 \<longrightarrow>
               DecodeAPIError decodeFail decodeError reqBody resp = Returned
                 (NotFoundError \<lparr>StatusCode = 404, Body = [], Message = ''not found''\<rparr> (fb_Errors fb)))
          \<and> (RespStatusCode resp = 409 \<longrightarrow>
               DecodeAPIError decodeFail decodeError reqBody resp = Returned
                 (ConflictError \<lparr>StatusCode = 409, Body = [], Message = ''conflict''\<rparr> (fb_Errors fb))))
       \<and> (Path u = pfx @ CHR ''/'' # rest \<and> pfx \<noteq> [] \<and> \<not> resourcePrefixed (pfx @ ''/'')
            \<longrightarrow> \<not> resourcePrefixed (Path u))"
proof
  show "\<not> resourcePrefixed (Path u) \<longrightarrow>
            (RespStatusCode resp = 404 \<longrightarrow>
               DecodeAPIError decodeFail decodeError reqBody resp = Returned
                 (NotFoundError \<lparr>StatusCode = 404, Body = [], Message = ''not found''\<rparr> (fb_Errors fb)))
          \<and> (RespStatusCode resp = 409 \<longrightarrow>
               DecodeAPIError decodeFail decodeError reqBody resp = Returned
                 (ConflictError \<lparr>StatusCode = 409, Body = [], Message = ''conflict''\<rparr> (fb_Errors fb)))"
    using assms by (simp add: DecodeAPIError_def resourcePrefixed_def)
next
  show "Path u = pfx @ CHR ''/'' # rest \<and> pfx \<noteq> [] \<and> \<not> resourcePrefixed (pfx @ ''/'')
            \<longrightarrow> \<not> resourcePrefixed (Path u)"
    using resourcePrefixed_base_prefix [of pfx rest] by auto
qed



theorem DecodeAPIError_base_path_prefix_witness:
  "\<not> resourcePrefixed (''/api'' @ ''/'')
   \<and> \<not> resourcePrefixed (''/api'' @ ''/leases/abc'')
   \<and> DecodeAPIError fixtureDecodeFail fixtureDecodeError None
        (fixtureResponse 404 (''/api'' @ ''/leases/abc'') fixtureFailJSON)
       = Returned (NotFoundError
           \<lparr>StatusCode = 404, Body = [], Message = ''not found''\<rparr> [FailErrorDetail ''fail error''])
   \<and> DecodeAPIError fixtureDecodeFail fixtureDecodeError None
        (fixtureResponse 409 (''/api'' @ ''/accounts/123/eject'') fixtureFailJSON)
       = Returned (ConflictError
           \<lparr>StatusCode = 409, Body = [], Message = ''conflict''\<rparr> [FailErrorDetail ''fail error''])"
proof -
  have p: "\<not> resourcePrefixed (''/api'' @ ''/'')"
    by (simp add: resourcePrefixed_def HasPrefix_def)
  have d: "fixtureDecodeFail fixtureFailJSON failBody_zero
             = (True, \<lparr>fb_Status = ''fail'', fb_Errors = [FailErrorDetail ''fail error'']\<rparr>)"
    by (simp add: fixtureDecodeFail_def failBody_zero_def)
  note a = DecodeAPIError_base_path_prefix
      [where resp = "fixtureResponse 404 (''/api'' @ ''/leases/abc'') fixtureFailJSON"
         and decodeFail = fixtureDecodeFail and decodeError = fixtureDecodeError and reqBody = None
         and pfx = "''/api''" and rest = "''leases/abc''"
         and u = "\<lparr>Path = ''/api'' @ ''/leases/abc'', RawQuery = []\<rparr>"]
  note b = DecodeAPIError_base_path_prefix
      [where resp = "fixtureResponse 409 (''/api'' @ ''/accounts/123/eject'') fixtureFailJSON"
         and decodeFail = fixtureDecodeFail and decodeError = fixtureDecodeError and reqBody = None
         and pfx = "''/api''" and rest = "''accounts/123/eject''"
         and u = "\<lparr>Path = ''/api'' @ ''/accounts/123/eject'', RawQuery = []\<rparr>"]
  have a': "\<not> resourcePrefixed (''/api'' @ ''/leases/abc'')
     \<and> DecodeAPIError fixtureDecodeFail fixtureDecodeError None
        (fixtureResponse 404 (''/api'' @ ''/leases/abc'') fixtureFailJSON)
       = Returned (NotFoundError
           \<lparr>StatusCode = 404, Body = [], Message = ''not found''\<rparr> [FailErrorDetail ''fail error''])"
    using a p d by (simp add: fixtureResponse_def)
  have b': "DecodeAPIError fixtureDecodeFail fixtureDecodeError None
        (fixtureResponse 409 (''/api'' @ ''/accounts/123/eject'') fixtureFailJSON)
       = Returned (ConflictError
           \<lparr>StatusCode = 409, Body = [], Message = ''conflict''\<rparr> [FailErrorDetail ''fail error''])"
    using b p d by (simp add: fixtureResponse_def)
  from p a' b' show ?thesis by blast
qed


theorem DecodeAPIError_base_path_prefix_counterexample:
  "DecodeAPIError fixtureDecodeFail fixtureDecodeError None
      (fixtureResponse 404 (''/leases'' @ ''/leases/abc'') fixtureFailJSON)
     = Returned (LeaseNotFoundError
         \<lparr>StatusCode = 404, Body = [], Message = ''lease not found''\<rparr> [FailErrorDetail ''fail error''])
   \<and> fst (GetLeaseByID (fixtureLib notFoundServer)
             (NewClient ''https://isb.example.com/leases'' ''token'')
             (Some (GetLeaseByIDRequest ''abc'')) [])
     = Returned (None, Some (LeaseNotFoundError
         \<lparr>StatusCode = 404, Body = [], Message = ''lease not found''\<rparr>
         [FailErrorDetail ''fail error'']))"
  by (simp add: DecodeAPIError_def GetLeaseByID_def doGet_def fixture_defs transport_defs
      client_fixture_defs)

section \<open>Properties of the query builders\<close>

lemma nibble_cases:
  assumes "n < (16::nat)"
  shows "n = 0 \<or> n = 1 \<or> n = 2 \<or> n = 3 \<or> n = 4 \<or> n = 5 \<or> n = 6 \<or> n = 7 \<or> n = 8
         \<or> n = 9 \<or> n = 10 \<or> n = 11 \<or> n = 12 \<or> n = 13 \<or> n = 14 \<or> n = 15"
  using assms by arith

lemma upperhex_digit:
  assumes "n < 16"
  shows "ishex (upperhex ! n) \<and> unhex (upperhex ! n) = n
         \<and> upperhex ! n \<noteq> CHR ''&'' \<and> upperhex ! n \<noteq> CHR ''='' \<and> upperhex ! n \<noteq> CHR '';''"
  using nibble_cases [OF assms]
  by (elim disjE) (simp_all add: upperhex_def ishex_def unhex_def less_eq_char_def)

lemma of_char_nibbles:
  "(of_char c :: nat) div 16 < 16" "(of_char c :: nat) mod 16 < 16"
  "char_of ((of_char c :: nat) div 16 * 16 + of_char c mod 16) = c"
proof -
  have "(of_char c :: nat) < 256" by (rule nat_of_char_less_256)
  then show "(of_char c :: nat) div 16 < 16" by arith
  show "(of_char c :: nat) mod 16 < 16" by simp
  show "char_of ((of_char c :: nat) div 16 * 16 + of_char c mod 16) = c" by simp
qed

lemma unescaped_char:
  assumes "\<not> shouldEscape c"
  shows "c \<noteq> CHR ''%'' \<and> c \<noteq> CHR ''+'' \<and> c \<noteq> CHR ''&'' \<and> c \<noteq> CHR ''='' \<and> c \<noteq> CHR '';''"
  using assms by (auto simp add: shouldEscape_def less_eq_char_def)

lemma QueryUnescape_QueryEscape: "QueryUnescape (QueryEscape s) = Inr s"
proof (induction s)
  case Nil
  show ?case by simp
next
  case (Cons c s)
  show ?case
  proof (cases "c = CHR '' ''")
    case True
    with Cons show ?thesis by simp
  next
    case False
    show ?thesis
    proof (cases "shouldEscape c")
      case True
      with False Cons upperhex_digit [OF of_char_nibbles(1) [of c]]
        upperhex_digit [OF of_char_nibbles(2) [of c]] of_char_nibbles(3) [of c]
      show ?thesis by simp
    next
      case False
      with \<open>c \<noteq> CHR '' ''\<close> Cons unescaped_char [OF False] show ?thesis by simp
    qed
  qed
qed

lemma QueryEscape_no_separator:
  "CHR ''&'' \<notin> set (QueryEscape s) \<and> CHR ''='' \<notin> set (QueryEscape s)
   \<and> CHR '';'' \<notin> set (QueryEscape s)"
proof (induction s)
  case Nil
  show ?case by simp
next
  case (Cons c s)
  with upperhex_digit [OF of_char_nibbles(1) [of c]] upperhex_digit [OF of_char_nibbles(2) [of c]]
    unescaped_char [of c]
  show ?case by auto
qed

lemma Contains_single: "Contains s [c] = (c \<in> set s)"
  by (induction s) (auto simp add: HasPrefix_def)

lemma Cut_found: "sep \<notin> set a \<Longrightarrow> Cut (a @ sep # b) sep = (a, b)"
proof -
  assume "sep \<notin> set a"
  then have "\<forall>x \<in> set a. x \<noteq> sep" by blast
  then have "takeWhile (\<lambda>c. c \<noteq> sep) (a @ sep # b) = a"
    and "dropWhile (\<lambda>c. c \<noteq> sep) (a @ sep # b) = sep # b"
    by (simp_all add: takeWhile_append2 dropWhile_append2)
  then show ?thesis by (simp add: Cut_def)
qed

lemma Cut_not_found: "sep \<notin> set a \<Longrightarrow> Cut a sep = (a, [])"
proof -
  assume "sep \<notin> set a"
  then have "\<forall>x \<in> set a. x \<noteq> sep" by blast
  then have t: "takeWhile (\<lambda>c. c \<noteq> sep) a = a" and d: "dropWhile (\<lambda>c. c \<noteq> sep) a = []"
    by (induction a) auto
  show ?thesis unfolding Cut_def t d by simp
qed


lemma QueryEscape_Nil_iff: "QueryEscape s = [] \<longleftrightarrow> s = []"
  by (cases s) auto

lemma parseQuery_Nil: "parseQuery m [] err = (m, err)"
  by (simp add: parseQuery.simps)

lemma parseQuery_last:
  "parseQuery m (QueryEscape k @ ''='' @ QueryEscape v) err
     = (AList.update k (Values_lookup m k @ [v]) m, err)"
proof -
  let ?piece = "QueryEscape k @ ''='' @ QueryEscape v"
  have a: "CHR ''&'' \<notin> set ?piece" and s: "\<not> Contains ?piece '';''"
    using QueryEscape_no_separator [of k] QueryEscape_no_separator [of v]
    by (simp_all add: Contains_single)
  have c1: "Cut ?piece CHR ''&'' = (?piece, [])"
    using a by (rule Cut_not_found)
  have c2: "Cut ?piece CHR ''='' = (QueryEscape k, QueryEscape v)"
    using Cut_found [of "CHR ''=''" "QueryEscape k" "QueryEscape v"]
      QueryEscape_no_separator [of k] by simp
  have ne: "?piece \<noteq> []" by simp
  show ?thesis
    apply (subst parseQuery.simps)
    apply (simp only: ne if_False c1 Let_def prod.case s c2 QueryUnescape_QueryEscape sum.case)
    apply (simp add: parseQuery_Nil)
    done
qed

lemma parseQuery_piece:
  "parseQuery m (QueryEscape k @ ''='' @ QueryEscape v @ ''&'' @ rest) err
     = parseQuery (AList.update k (Values_lookup m k @ [v]) m) rest err"
proof -
  let ?piece = "QueryEscape k @ ''='' @ QueryEscape v"
  have a: "CHR ''&'' \<notin> set ?piece" and s: "\<not> Contains ?piece '';''"
    using QueryEscape_no_separator [of k] QueryEscape_no_separator [of v]
    by (simp_all add: Contains_single)
  have c1: "Cut (QueryEscape k @ ''='' @ QueryEscape v @ ''&'' @ rest) CHR ''&'' = (?piece, rest)"
    using Cut_found [OF a, of rest] by simp
  have c2: "Cut ?piece CHR ''='' = (QueryEscape k, QueryEscape v)"
    using Cut_found [of "CHR ''=''" "QueryEscape k" "QueryEscape v"]
      QueryEscape_no_separator [of k] by simp
  have ne: "QueryEscape k @ ''='' @ QueryEscape v @ ''&'' @ rest \<noteq> []" and ne': "?piece \<noteq> []"
    by simp_all
  show ?thesis
    apply (subst parseQuery.simps)
    apply (simp only: ne ne' if_False c1 Let_def prod.case s c2 QueryUnescape_QueryEscape sum.case)
    done
qed


lemma parseQuery_piece':
  "parseQuery m (QueryEscape k @ CHR ''='' # QueryEscape v @ CHR ''&'' # rest) err
     = parseQuery (AList.update k (Values_lookup m k @ [v]) m) rest err"
  using parseQuery_piece [of m k v rest err] by simp

lemma parseQuery_last':
  "parseQuery m (QueryEscape k @ CHR ''='' # QueryEscape v) err
     = (AList.update k (Values_lookup m k @ [v]) m, err)"
  using parseQuery_last [of m k v err] by simp

lemmas roundtrip_simps =
  ParseQuery_def Encode_def Values_Set_def Values_lookup_def parseQuery_piece' parseQuery_last'
  parseQuery_Nil

lemma GetLeasesRequest_roundtrip:
  "ParseQuery (Encode (GetLeasesRequest_BuildQuery r)) = (GetLeasesRequest_BuildQuery r, None)"
proof (cases r)
  case None
  then show ?thesis by (simp add: GetLeasesRequest_BuildQuery_def roundtrip_simps)
next
  case (Some q)
  obtain a b c where q: "q = GetLeasesRequest a b c" by (cases q)
  show ?thesis unfolding Some q
    by (simp add: GetLeasesRequest_BuildQuery_def roundtrip_simps del: QueryEscape.simps)
qed

lemma GetLeaseTemplatesRequest_roundtrip:
  "ParseQuery (Encode (GetLeaseTemplatesRequest_BuildQuery r))
     = (GetLeaseTemplatesRequest_BuildQuery r, None)"
proof (cases r)
  case None
  then show ?thesis by (simp add: GetLeaseTemplatesRequest_BuildQuery_def roundtrip_simps)
next
  case (Some q)
  obtain a b where q: "q = GetLeaseTemplatesRequest a b" by (cases q)
  show ?thesis unfolding Some q
    by (simp add: GetLeaseTemplatesRequest_BuildQuery_def roundtrip_simps del: QueryEscape.simps)
qed

lemma GetAccountsRequest_roundtrip:
  "ParseQuery (Encode (GetAccountsRequest_BuildQuery r)) = (GetAccountsRequest_BuildQuery r, None)"
proof (cases r)
  case None
  then show ?thesis by (simp add: GetAccountsRequest_BuildQuery_def roundtrip_simps)
next
  case (Some q)
  obtain a b where q: "q = GetAccountsRequest a b" by (cases q)
  show ?thesis unfolding Some q
    by (simp add: GetAccountsRequest_BuildQuery_def roundtrip_simps del: QueryEscape.simps)
qed

text \<open>
  The two request types without a page cursor. \<open>CreateLeaseRequest\<close> sets
  \<open>leaseTemplateUuid\<close> before \<open>comments\<close> and the encoding sorts the keys, so the
  parsed map has the same entries in the other order.
\<close>

lemma GetLeaseByIDRequest_roundtrip:
  "ParseQuery (Encode (GetLeaseByIDRequest_BuildQuery r)) = (GetLeaseByIDRequest_BuildQuery r, None)"
proof (cases r)
  case None
  then show ?thesis by (simp add: GetLeaseByIDRequest_BuildQuery_def roundtrip_simps)
next
  case (Some q)
  obtain a where q: "q = GetLeaseByIDRequest a" by (cases q)
  show ?thesis unfolding Some q
    by (simp add: GetLeaseByIDRequest_BuildQuery_def roundtrip_simps del: QueryEscape.simps)
qed

lemma CreateLeaseRequest_roundtrip:
  "map_of (fst (ParseQuery (Encode (CreateLeaseRequest_BuildQuery r))))
     = map_of (CreateLeaseRequest_BuildQuery r)
   \<and> snd (ParseQuery (Encode (CreateLeaseRequest_BuildQuery r))) = None"
proof (cases r)
  case None
  then show ?thesis by (simp add: CreateLeaseRequest_BuildQuery_def roundtrip_simps)
next
  case (Some q)
  obtain a b where q: "q = CreateLeaseRequest a b" by (cases q)
  show ?thesis unfolding Some q
    by (auto simp add: CreateLeaseRequest_BuildQuery_def roundtrip_simps simp del: QueryEscape.simps)
qed

text \<open>
  C8. For the three paginated request types, the query builder applied to any request
  (nil, empty, or with fields set), encoded and parsed by \<^verbatim>\<open>url.ParseQuery\<close>, gives back
  the builder's map with no parse error. With all fields set that map has exactly the
  entries of the fields, one value each, and nothing else; for a nil or an all-empty
  request the map is empty and so is the encoded query.
\<close>

theorem BuildQuery_round_trip:
  "ParseQuery (Encode (GetLeasesRequest_BuildQuery r1)) = (GetLeasesRequest_BuildQuery r1, None)
   \<and> ParseQuery (Encode (GetLeaseTemplatesRequest_BuildQuery r2))
       = (GetLeaseTemplatesRequest_BuildQuery r2, None)
   \<and> ParseQuery (Encode (GetAccountsRequest_BuildQuery r3)) = (GetAccountsRequest_BuildQuery r3, None)
   \<and> (pageIdentifier \<noteq> [] \<and> pageSize \<noteq> [] \<and> userEmail \<noteq> [] \<longrightarrow>
        ParseQuery (Encode (GetLeasesRequest_BuildQuery
            (Some (GetLeasesRequest pageIdentifier pageSize userEmail))))
          = ([(''pageIdentifier'', [pageIdentifier]), (''pageSize'', [pageSize]),
              (''userEmail'', [userEmail])], None))
   \<and> (pageIdentifier \<noteq> [] \<and> pageSize \<noteq> [] \<longrightarrow>
        ParseQuery (Encode (GetLeaseTemplatesRequest_BuildQuery
            (Some (GetLeaseTemplatesRequest pageIdentifier pageSize))))
          = ([(''pageIdentifier'', [pageIdentifier]), (''pageSize'', [pageSize])], None)
      \<and> ParseQuery (Encode (GetAccountsRequest_BuildQuery
            (Some (GetAccountsRequest pageIdentifier pageSize))))
          = ([(''pageIdentifier'', [pageIdentifier]), (''pageSize'', [pageSize])], None))
   \<and> GetLeasesRequest_BuildQuery None = []
   \<and> GetLeasesRequest_BuildQuery (Some (GetLeasesRequest [] [] [])) = []
   \<and> GetLeaseTemplatesRequest_BuildQuery None = []
   \<and> GetLeaseTemplatesRequest_BuildQuery (Some (GetLeaseTemplatesRequest [] [])) = []
   \<and> GetAccountsRequest_BuildQuery None = []
   \<and> GetAccountsRequest_BuildQuery (Some (GetAccountsRequest [] [])) = []
   \<and> Encode [] = []"
proof -
  have e: "Encode [] = []" by (simp add: Encode_def)
  have b: "GetLeasesRequest_BuildQuery None = []"
    "GetLeasesRequest_BuildQuery (Some (GetLeasesRequest [] [] [])) = []"
    "GetLeaseTemplatesRequest_BuildQuery None = []"
    "GetLeaseTemplatesRequest_BuildQuery (Some (GetLeaseTemplatesRequest [] [])) = []"
    "GetAccountsRequest_BuildQuery None = []"
    "GetAccountsRequest_BuildQuery (Some (GetAccountsRequest [] [])) = []"
    by (simp_all add: GetLeasesRequest_BuildQuery_def GetLeaseTemplatesRequest_BuildQuery_def
        GetAccountsRequest_BuildQuery_def)
  have s1: "pageIdentifier \<noteq> [] \<and> pageSize \<noteq> [] \<and> userEmail \<noteq> [] \<longrightarrow>
      GetLeasesRequest_BuildQuery (Some (GetLeasesRequest pageIdentifier pageSize userEmail))
        = [(''pageIdentifier'', [pageIdentifier]), (''pageSize'', [pageSize]),
           (''userEmail'', [userEmail])]"
    by (simp add: GetLeasesRequest_BuildQuery_def Values_Set_def)
  have s2: "pageIdentifier \<noteq> [] \<and> pageSize \<noteq> [] \<longrightarrow>
      GetLeaseTemplatesRequest_BuildQuery (Some (GetLeaseTemplatesRequest pageIdentifier pageSize))
        = [(''pageIdentifier'', [pageIdentifier]), (''pageSize'', [pageSize])]"
    by (simp add: GetLeaseTemplatesRequest_BuildQuery_def Values_Set_def)
  have s3: "pageIdentifier \<noteq> [] \<and> pageSize \<noteq> [] \<longrightarrow>
      GetAccountsRequest_BuildQuery (Some (GetAccountsRequest pageIdentifier pageSize))
        = [(''pageIdentifier'', [pageIdentifier]), (''pageSize'', [pageSize])]"
    by (simp add: GetAccountsRequest_BuildQuery_def Values_Set_def)
  have t1: "pageIdentifier \<noteq> [] \<and> pageSize \<noteq> [] \<and> userEmail \<noteq> [] \<longrightarrow>
        ParseQuery (Encode (GetLeasesRequest_BuildQuery
            (Some (GetLeasesRequest pageIdentifier pageSize userEmail))))
          = ([(''pageIdentifier'', [pageIdentifier]), (''pageSize'', [pageSize]),
              (''userEmail'', [userEmail])], None)"
    unfolding GetLeasesRequest_roundtrip using s1 by simp
  have t2: "pageIdentifier \<noteq> [] \<and> pageSize \<noteq> [] \<longrightarrow>
        ParseQuery (Encode (GetLeaseTemplatesRequest_BuildQuery
            (Some (GetLeaseTemplatesRequest pageIdentifier pageSize))))
          = ([(''pageIdentifier'', [pageIdentifier]), (''pageSize'', [pageSize])], None)"
    unfolding GetLeaseTemplatesRequest_roundtrip using s2 by simp
  have t3: "pageIdentifier \<noteq> [] \<and> pageSize \<noteq> [] \<longrightarrow>
        ParseQuery (Encode (GetAccountsRequest_BuildQuery
            (Some (GetAccountsRequest pageIdentifier pageSize))))
          = ([(''pageIdentifier'', [pageIdentifier]), (''pageSize'', [pageSize])], None)"
    unfolding GetAccountsRequest_roundtrip using s3 by simp
  from e b t1 t2 t3 GetLeasesRequest_roundtrip [of r1] GetLeaseTemplatesRequest_roundtrip [of r2]
    GetAccountsRequest_roundtrip [of r3]
  show ?thesis by blast
qed

theorem BuildQuery_round_trip_witness:
  "Encode (GetLeasesRequest_BuildQuery (Some (GetLeasesRequest ''next'' ''20'' ''user@example.com'')))
     = ''pageIdentifier=next&pageSize=20&userEmail=user%40example.com''
   \<and> ParseQuery ''pageIdentifier=next&pageSize=20&userEmail=user%40example.com''
     = ([(''pageIdentifier'', [''next'']), (''pageSize'', [''20'']),
         (''userEmail'', [''user@example.com''])], None)"
proof -
  have e: "Encode (GetLeasesRequest_BuildQuery
             (Some (GetLeasesRequest ''next'' ''20'' ''user@example.com'')))
           = ''pageIdentifier=next&pageSize=20&userEmail=user%40example.com''"
    by (simp add: GetLeasesRequest_BuildQuery_def Values_Set_def Encode_def shouldEscape_def
        upperhex_def less_eq_char_def)
  from BuildQuery_round_trip
    [where pageIdentifier = "''next''" and pageSize = "''20''" and userEmail = "''user@example.com''",
      THEN conjunct2, THEN conjunct2, THEN conjunct2, THEN conjunct1]
  have "ParseQuery (Encode (GetLeasesRequest_BuildQuery
            (Some (GetLeasesRequest ''next'' ''20'' ''user@example.com''))))
          = ([(''pageIdentifier'', [''next'']), (''pageSize'', [''20'']),
              (''userEmail'', [''user@example.com''])], None)"
    by simp
  with e show ?thesis by simp
qed

section \<open>Properties of the operations\<close>

lemma classified_not_success [simp]:
  "classified r w \<noteq> (Returned (Some a, None), w')"
  by (simp add: classified_def split: outcome.split)

lemma withResponse_success:
  assumes "withResponse r rest = (Returned (Some a, None), w')"
  shows "\<exists>resp w1. r = (Returned (Some resp, None), w1)
           \<and> rest resp w1 = (Returned (Some a, None), w')"
  using assms
  by (auto simp add: withResponse_def split: prod.splits outcome.splits option.splits)

lemma doGet_success:
  assumes "doGet L c url w = (Returned (Some resp, None), w')"
  shows "\<exists>httpReq. HTTPClient_Do L c httpReq w = (Inr resp, w')"
  using assms
  by (auto simp add: doGet_def Let_def split: sum.splits prod.splits if_splits)

lemma doPost_success:
  assumes "doPost L c url body w = (Returned (Some resp, None), w')"
  shows "\<exists>httpReq. HTTPClient_Do L c httpReq w = (Inr resp, w')"
  using assms
  by (auto simp add: doPost_def Let_def split: sum.splits prod.splits if_splits)

lemma doPatch_success:
  assumes "doPatch L c url body w = (Returned (Some resp, None), w')"
  shows "\<exists>httpReq. HTTPClient_Do L c httpReq w = (Inr resp, w')"
  using assms
  by (auto simp add: doPatch_def Let_def split: sum.splits prod.splits if_splits)

lemma canonicalLeaseId_marshal:
  "EncodeToString (json_Marshal_map quote [(''userEmail'', UserEmail d), (''uuid'', UUID d)])
     = canonicalLeaseId quote d"
  by (simp add: json_Marshal_map_def canonicalLeaseId_def)

lemma CreateLease_success:
  fixes L :: "('w, 'd) lib"
  assumes "CreateLease L c req w = (Returned (Some (CreateLeaseResponse l), None), w')"
  shows "\<exists>httpReq resp d. HTTPClient_Do L c httpReq w = (Inr resp, w')
           \<and> json_DecodeLease L (RespBody resp) = Inr d
           \<and> l = d\<lparr>LeaseId := canonicalLeaseId (json_Quote L) d\<rparr>"
proof -
  define K where "K = (\<lambda>(resp :: Response) (w1 :: 'w).
          case json_DecodeLease L (RespBody resp) of
            Inl err \<Rightarrow> (Returned (None, Some (JSONDecodingError err :: 'd error)), w1)
          | Inr d \<Rightarrow>
              (Returned (Some (CreateLeaseResponse
                 (d\<lparr>LeaseId := canonicalLeaseId (json_Quote L) d\<rparr>)), None), w1))"
  from assms obtain t cm where req: "req = Some (CreateLeaseRequest t cm)" and t: "t \<noteq> []"
    by (auto simp add: CreateLease_def split: option.splits CreateLeaseRequest.splits if_splits)
  from assms req t have
    "withResponse (doPost L c (BaseURL c @ ''/leases'') (Some (createLeaseBody L t cm)) w) K
     = (Returned (Some (CreateLeaseResponse l), None), w')"
    by (simp add: CreateLease_def Let_def json_Marshal_checked_def canonicalLeaseId_marshal K_def
        cong: sum.case_cong)
  from withResponse_success [OF this] obtain resp w1 where
    p: "doPost L c (BaseURL c @ ''/leases'') (Some (createLeaseBody L t cm)) w
          = (Returned (Some resp, None), w1)" and
    k: "K resp w1 = (Returned (Some (CreateLeaseResponse l), None), w')"
    by blast
  show ?thesis
  proof (cases "json_DecodeLease L (RespBody resp)")
    case (Inl e)
    with k show ?thesis by (simp add: K_def)
  next
    case (Inr d)
    with k have "l = d\<lparr>LeaseId := canonicalLeaseId (json_Quote L) d\<rparr>" and "w1 = w'"
      by (auto simp add: K_def)
    with doPost_success [OF p] Inr show ?thesis by blast
  qed
qed


lemma CreateLeaseAsUser_success:
  fixes L :: "('w, 'd) lib"
  assumes "CreateLeaseAsUser L c req userEmail jwtSecret w
             = (Returned (Some (CreateLeaseResponse l), None), w')"
  shows "\<exists>httpReq resp d. roundTrip L httpReq w = (Inr resp, w')
           \<and> json_DecodeLease L (RespBody resp) = Inr d
           \<and> l = d\<lparr>LeaseId := canonicalLeaseId (json_Quote L) d\<rparr>"
proof -
  from assms obtain t cm where req: "req = Some (CreateLeaseRequest t cm)" and t: "t \<noteq> []"
    by (auto simp add: CreateLeaseAsUser_def split: option.splits CreateLeaseRequest.splits if_splits)
  from assms req t obtain jwt where
    jwt: "GenerateJWT L (NewUserUserClaims userEmail) jwtSecret (15 * time_Minute) w = Inr jwt"
    by (cases "GenerateJWT L (NewUserUserClaims userEmail) jwtSecret (15 * time_Minute) w")
      (auto simp add: CreateLeaseAsUser_def Let_def)
  from assms req t jwt obtain httpReq where
    nr: "NewRequestWithContext L ''POST'' (BaseURL c @ ''/leases'')
           (bytes_NewReader (Some (createLeaseBody L t cm))) = Inr httpReq"
    by (cases "NewRequestWithContext L ''POST'' (BaseURL c @ ''/leases'')
           (bytes_NewReader (Some (createLeaseBody L t cm)))")
      (auto simp add: CreateLeaseAsUser_def Let_def)
  let ?r = "httpReq\<lparr>ReqContentType := ''application/json'', ReqAuthorization := ''Bearer '' @ jwt\<rparr>"
  obtain res w1 where rt: "roundTrip L ?r w = (res, w1)"
    by (cases "roundTrip L ?r w")
  from assms req t jwt nr rt obtain resp where res: "res = Inr resp"
    by (cases res) (auto simp add: CreateLeaseAsUser_def Let_def)
  from assms req t jwt nr rt res have
    ok: "\<not> (RespStatusCode resp \<noteq> 200 \<and> RespStatusCode resp \<noteq> 201)"
    by (auto simp add: CreateLeaseAsUser_def Let_def split: if_splits)
  show ?thesis
  proof (cases "json_DecodeLease L (RespBody resp)")
    case (Inl e)
    with assms req t jwt nr rt res ok show ?thesis
      by (auto simp add: CreateLeaseAsUser_def Let_def)
  next
    case (Inr d)
    with assms req t jwt nr rt res ok
    have "l = d\<lparr>LeaseId := canonicalLeaseId (json_Quote L) d\<rparr>" and "w1 = w'"
      by (auto simp add: CreateLeaseAsUser_def Let_def json_Marshal_checked_def
          canonicalLeaseId_marshal)
    with rt res Inr show ?thesis by blast
  qed
qed

lemma UpdateLease_success:
  fixes L :: "('w, 'd) lib"
  assumes "UpdateLease L c req w = (Returned (Some (UpdateLeaseResponse l), None), w')"
  shows "\<exists>httpReq resp. HTTPClient_Do L c httpReq w = (Inr resp, w')
           \<and> json_DecodeLease L (RespBody resp) = Inr l"
proof -
  define K where "K = (\<lambda>(resp :: Response) (w1 :: 'w).
          case json_DecodeLease L (RespBody resp) of
            Inl err \<Rightarrow> (Returned (None, Some (JSONDecodingError err :: 'd error)), w1)
          | Inr d \<Rightarrow> (Returned (Some (UpdateLeaseResponse d), None), w1))"
  from assms obtain i a b e f where req: "req = Some (UpdateLeaseRequest i a b e f)" and i: "i \<noteq> []"
    by (auto simp add: UpdateLease_def split: option.splits UpdateLeaseRequest.splits if_splits)
  from assms req i obtain body where
    m: "json_MarshalUpdateLease L (UpdateLeaseRequest i a b e f) = Inr body"
    by (cases "json_MarshalUpdateLease L (UpdateLeaseRequest i a b e f)")
      (auto simp add: UpdateLease_def Let_def)
  from assms req i m have
    "withResponse (doPatch L c (BaseURL c @ ''/leases/'' @ i) (Some body) w) K
     = (Returned (Some (UpdateLeaseResponse l), None), w')"
    by (simp add: UpdateLease_def Let_def K_def)
  from withResponse_success [OF this] obtain resp w1 where
    p: "doPatch L c (BaseURL c @ ''/leases/'' @ i) (Some body) w = (Returned (Some resp, None), w1)" and
    k: "K resp w1 = (Returned (Some (UpdateLeaseResponse l), None), w')"
    by blast
  show ?thesis
  proof (cases "json_DecodeLease L (RespBody resp)")
    case (Inl e)
    with k show ?thesis by (simp add: K_def)
  next
    case (Inr d)
    with k have "l = d" and "w1 = w'"
      by (auto simp add: K_def)
    with doPatch_success [OF p] Inr show ?thesis by blast
  qed
qed

lemma GetLeaseByID_success:
  fixes L :: "('w, 'd) lib"
  assumes "GetLeaseByID L c req w = (Returned (Some (GetLeaseByIDResponse l), None), w')"
  shows "\<exists>httpReq resp. HTTPClient_Do L c httpReq w = (Inr resp, w')
           \<and> json_DecodeLease L (RespBody resp) = Inr l"
proof -
  define K where "K = (\<lambda>(resp :: Response) (w1 :: 'w).
          case json_DecodeLease L (RespBody resp) of
            Inl err \<Rightarrow> (Returned (None, Some (JSONDecodingError err :: 'd error)), w1)
          | Inr d \<Rightarrow> (Returned (Some (GetLeaseByIDResponse d), None), w1))"
  from assms obtain i where req: "req = Some (GetLeaseByIDRequest i)" and i: "i \<noteq> []"
    by (auto simp add: GetLeaseByID_def split: option.splits GetLeaseByIDRequest.splits if_splits)
  from assms req i have
    "withResponse (doGet L c (BaseURL c @ ''/leases/'' @ i) w) K
     = (Returned (Some (GetLeaseByIDResponse l), None), w')"
    by (simp add: GetLeaseByID_def Let_def K_def)
  from withResponse_success [OF this] obtain resp w1 where
    p: "doGet L c (BaseURL c @ ''/leases/'' @ i) w = (Returned (Some resp, None), w1)" and
    k: "K resp w1 = (Returned (Some (GetLeaseByIDResponse l), None), w')"
    by blast
  show ?thesis
  proof (cases "json_DecodeLease L (RespBody resp)")
    case (Inl e)
    with k show ?thesis by (simp add: K_def)
  next
    case (Inr d)
    with k have "l = d" and "w1 = w'"
      by (auto simp add: K_def)
    with doGet_success [OF p] Inr show ?thesis by blast
  qed
qed

lemma GetLeases_success:
  fixes L :: "('w, 'd) lib"
  assumes "GetLeases L c req w = (Returned (Some d, None), w')"
  shows "\<exists>httpReq resp. HTTPClient_Do L c httpReq w = (Inr resp, w')
           \<and> json_DecodeLeases L (RespBody resp) = Inr d"
proof -
  define K where "K = (\<lambda>(resp :: Response) (w1 :: 'w).
          case json_DecodeLeases L (RespBody resp) of
            Inl err \<Rightarrow> (Returned (None, Some (JSONDecodingError err :: 'd error)), w1)
          | Inr d \<Rightarrow> (Returned (Some d, None), w1))"
  from assms obtain u where u: "url_Parse L (BaseURL c @ ''/leases'') = Inr u"
    by (cases "url_Parse L (BaseURL c @ ''/leases'')") (auto simp add: GetLeases_def)
  from assms u obtain url where
    "withResponse (doGet L c url w) K = (Returned (Some d, None), w')"
    by (simp add: GetLeases_def Let_def K_def)
  from withResponse_success [OF this] obtain resp w1 where
    p: "doGet L c url w = (Returned (Some resp, None), w1)" and
    k: "K resp w1 = (Returned (Some d, None), w')"
    by blast
  show ?thesis
  proof (cases "json_DecodeLeases L (RespBody resp)")
    case (Inl e)
    with k show ?thesis by (simp add: K_def)
  next
    case (Inr d')
    with k have "d = d'" and "w1 = w'"
      by (auto simp add: K_def)
    with doGet_success [OF p] Inr show ?thesis by blast
  qed
qed

text \<open>
  C3 (as amended). \<open>CreateLease\<close> and \<open>CreateLeaseAsUser\<close> return the lease decoded
  from the response with its \<open>LeaseId\<close> overwritten by the base64 encoding of the
  canonical JSON object of its \<open>userEmail\<close> and \<open>uuid\<close>. \<open>UpdateLease\<close>, like
  the reads \<open>GetLeaseByID\<close> and \<open>GetLeases\<close>, returns what was decoded from the
  response as it is, the \<open>LeaseId\<close> of the server included.
\<close>

theorem LeaseId_recomputed_by_create_only:
  fixes L :: "('w, 'd) lib"
  shows "(CreateLease L c creq w = (Returned (Some (CreateLeaseResponse l), None), w') \<longrightarrow>
            (\<exists>httpReq resp d. HTTPClient_Do L c httpReq w = (Inr resp, w')
               \<and> json_DecodeLease L (RespBody resp) = Inr d
               \<and> l = d\<lparr>LeaseId := canonicalLeaseId (json_Quote L) d\<rparr>))
       \<and> (CreateLeaseAsUser L c creq userEmail jwtSecret w
              = (Returned (Some (CreateLeaseResponse l), None), w') \<longrightarrow>
            (\<exists>httpReq resp d. roundTrip L httpReq w = (Inr resp, w')
               \<and> json_DecodeLease L (RespBody resp) = Inr d
               \<and> l = d\<lparr>LeaseId := canonicalLeaseId (json_Quote L) d\<rparr>))
       \<and> (UpdateLease L c ureq w = (Returned (Some (UpdateLeaseResponse l), None), w') \<longrightarrow>
            (\<exists>httpReq resp. HTTPClient_Do L c httpReq w = (Inr resp, w')
               \<and> json_DecodeLease L (RespBody resp) = Inr l))
       \<and> (GetLeaseByID L c greq w = (Returned (Some (GetLeaseByIDResponse l), None), w') \<longrightarrow>
            (\<exists>httpReq resp. HTTPClient_Do L c httpReq w = (Inr resp, w')
               \<and> json_DecodeLease L (RespBody resp) = Inr l))
       \<and> (GetLeases L c qb w = (Returned (Some page, None), w') \<longrightarrow>
            (\<exists>httpReq resp. HTTPClient_Do L c httpReq w = (Inr resp, w')
               \<and> json_DecodeLeases L (RespBody resp) = Inr page))"
  using CreateLease_success [of L c creq w l w']
    CreateLeaseAsUser_success [of L c creq userEmail jwtSecret w l w']
    UpdateLease_success [of L c ureq w l w'] GetLeaseByID_success [of L c greq w l w']
    GetLeases_success [of L c qb w page w']
  by blast

theorem LeaseId_recomputed_by_create_only_witness:
  "(\<exists>httpReq resp d.
       HTTPClient_Do (fixtureLib leaseServer) fixtureClient httpReq []
         = (Inr resp, snd (CreateLease (fixtureLib leaseServer) fixtureClient
                             (Some (CreateLeaseRequest ''tpl'' ''test comment'')) []))
     \<and> json_DecodeLease (fixtureLib leaseServer) (RespBody resp) = Inr d
     \<and> fixtureLease\<lparr>LeaseId :=
          ''eyJ1c2VyRW1haWwiOiJ1c2VyQGV4YW1wbGUuY29tIiwidXVpZCI6ImxlYXNlMTIzIn0=''\<rparr>
        = d\<lparr>LeaseId := canonicalLeaseId (json_Quote (fixtureLib leaseServer)) d\<rparr>)
   \<and> (\<exists>httpReq resp.
       HTTPClient_Do (fixtureLib leaseServer) fixtureClient httpReq []
         = (Inr resp, snd (UpdateLease (fixtureLib leaseServer) fixtureClient
                             (Some (UpdateLeaseRequest ''abc'' None None None None)) []))
     \<and> json_DecodeLease (fixtureLib leaseServer) (RespBody resp) = Inr fixtureLease)"
proof -
  let ?w1 = "snd (CreateLease (fixtureLib leaseServer) fixtureClient
        (Some (CreateLeaseRequest ''tpl'' ''test comment'')) [])"
  let ?w2 = "snd (UpdateLease (fixtureLib leaseServer) fixtureClient
        (Some (UpdateLeaseRequest ''abc'' None None None None)) [])"
  have "fst (CreateLease (fixtureLib leaseServer) fixtureClient
        (Some (CreateLeaseRequest ''tpl'' ''test comment'')) [])
      = Returned (Some (CreateLeaseResponse (fixtureLease\<lparr>LeaseId :=
          ''eyJ1c2VyRW1haWwiOiJ1c2VyQGV4YW1wbGUuY29tIiwidXVpZCI6ImxlYXNlMTIzIn0=''\<rparr>)), None)"
    by (simp add: CreateLease_def doPost_def createLeaseBody_def json_Marshal_checked_def
        json_Marshal_map_def EncodeToString_def encodeStd_def transport_defs client_fixture_defs)
  then have c: "CreateLease (fixtureLib leaseServer) fixtureClient
        (Some (CreateLeaseRequest ''tpl'' ''test comment'')) []
      = (Returned (Some (CreateLeaseResponse (fixtureLease\<lparr>LeaseId :=
          ''eyJ1c2VyRW1haWwiOiJ1c2VyQGV4YW1wbGUuY29tIiwidXVpZCI6ImxlYXNlMTIzIn0=''\<rparr>)), None), ?w1)"
    by (metis prod.collapse)
  have "fst (UpdateLease (fixtureLib leaseServer) fixtureClient
        (Some (UpdateLeaseRequest ''abc'' None None None None)) [])
      = Returned (Some (UpdateLeaseResponse fixtureLease), None)"
    by (simp add: UpdateLease_def doPatch_def transport_defs client_fixture_defs)
  then have u: "UpdateLease (fixtureLib leaseServer) fixtureClient
        (Some (UpdateLeaseRequest ''abc'' None None None None)) []
      = (Returned (Some (UpdateLeaseResponse fixtureLease), None), ?w2)"
    by (metis prod.collapse)
  note t = LeaseId_recomputed_by_create_only
    [where L = "fixtureLib leaseServer" and c = fixtureClient and w = "[]"]
  from t [where creq = "Some (CreateLeaseRequest ''tpl'' ''test comment'')" and w' = ?w1,
      THEN conjunct1, rule_format, OF c]
    t [where ureq = "Some (UpdateLeaseRequest ''abc'' None None None None)" and w' = ?w2,
      THEN conjunct2, THEN conjunct2, THEN conjunct1, rule_format, OF u]
  show ?thesis by blast
qed

text \<open>
  The claim as stated fails for \<open>UpdateLease\<close>: when the server's lease carries no
  \<open>leaseId\<close>, the lease returned has the empty \<open>LeaseId\<close> of the response, not the
  base64 encoding of its \<open>userEmail\<close> and \<open>uuid\<close>.
\<close>

theorem UpdateLease_LeaseId_counterexample:
  "fst (UpdateLease (fixtureLib leaseServer) fixtureClient
          (Some (UpdateLeaseRequest ''abc'' None None None None)) [])
     = Returned (Some (UpdateLeaseResponse fixtureLease), None)
   \<and> LeaseId fixtureLease = []
   \<and> canonicalLeaseId fixtureQuote fixtureLease
       = ''eyJ1c2VyRW1haWwiOiJ1c2VyQGV4YW1wbGUuY29tIiwidXVpZCI6ImxlYXNlMTIzIn0=''"
  by (simp add: UpdateLease_def doPatch_def transport_defs client_fixture_defs
      canonicalLeaseId_def EncodeToString_def encodeStd_def)

text \<open>
  C4. When the transport fails, \<open>doGet\<close> returns the request error with a nil
  response, and \<open>GetConfigurations\<close>, which has discarded that error, faults on the nil
  response instead of returning the error.
\<close>

theorem GetConfigurations_faults_on_transport_error:
  "fst (doGet (fixtureLib unreachableServer) fixtureClient
          ''https://isb.example.com/configurations'' [])
     = Returned (None, Some (APIRequestError ''do'' ''https://isb.example.com/configurations''
         ''dial tcp: connection refused''))
   \<and> fst (GetConfigurations (fixtureLib unreachableServer) fixtureClient [])
     = Panic nilDereference"
  by (simp add: GetConfigurations_def doGet_def transport_defs client_fixture_defs)

text \<open>
  The five transport helpers do check the content type before the status code: a
  response with a body and a content type without \<open>application/json\<close> gives the
  request error of the helper whatever the status. The error names the content type;
  the place of the body in its text is empty, since \<open>isJSONResponse\<close> returns no body.
\<close>

lemma isJSONResponse_rejects:
  "RespBody resp \<noteq> [] \<Longrightarrow> \<not> Contains (RespContentType resp) ''application/json''
     \<Longrightarrow> isJSONResponse resp = (False, [])"
  by (simp add: isJSONResponse_def)

lemma doGet_nonJSON:
  assumes "NewRequestWithContext L ''GET'' url None = Inr httpReq"
    and "HTTPClient_Do L c httpReq w = (Inr resp, w')"
    and "RespBody resp \<noteq> []" and "\<not> Contains (RespContentType resp) ''application/json''"
  shows "doGet L c url w = (Returned (None, Some (APIRequestError ''doGet'' url
           (''non-JSON response ('' @ RespContentType resp @ ''): ''))), w')"
  using assms by (simp add: doGet_def isJSONResponse_rejects nonJSONError_def)

lemma doPost_nonJSON:
  assumes "NewRequestWithContext L ''POST'' url (bytes_NewReader body) = Inr httpReq"
    and "HTTPClient_Do L c (httpReq\<lparr>ReqContentType := ''application/json''\<rparr>) w = (Inr resp, w')"
    and "RespBody resp \<noteq> []" and "\<not> Contains (RespContentType resp) ''application/json''"
  shows "doPost L c url body w = (Returned (None, Some (APIRequestError ''doPost'' url
           (''non-JSON response ('' @ RespContentType resp @ ''): ''))), w')"
  using assms by (simp add: doPost_def isJSONResponse_rejects nonJSONError_def)

lemma doPatch_nonJSON:
  assumes "NewRequestWithContext L ''PATCH'' url (bytes_NewReader body) = Inr httpReq"
    and "HTTPClient_Do L c (httpReq\<lparr>ReqContentType := ''application/json''\<rparr>) w = (Inr resp, w')"
    and "RespBody resp \<noteq> []" and "\<not> Contains (RespContentType resp) ''application/json''"
  shows "doPatch L c url body w = (Returned (None, Some (APIRequestError ''doPatch'' url
           (''non-JSON response ('' @ RespContentType resp @ ''): ''))), w')"
  using assms by (simp add: doPatch_def isJSONResponse_rejects nonJSONError_def)

lemma doPut_nonJSON:
  assumes "NewRequestWithContext L ''PUT'' url (bytes_NewReader body) = Inr httpReq"
    and "HTTPClient_Do L c (httpReq\<lparr>ReqContentType := ''application/json''\<rparr>) w = (Inr resp, w')"
    and "RespBody resp \<noteq> []" and "\<not> Contains (RespContentType resp) ''application/json''"
  shows "doPut L c url body w = (Returned (None, Some (APIRequestError ''doPut'' url
           (''non-JSON response ('' @ RespContentType resp @ ''): ''))), w')"
  using assms by (simp add: doPut_def isJSONResponse_rejects nonJSONError_def)

lemma doDelete_nonJSON:
  assumes "NewRequestWithContext L ''DELETE'' url None = Inr httpReq"
    and "HTTPClient_Do L c httpReq w = (Inr resp, w')"
    and "RespBody resp \<noteq> []" and "\<not> Contains (RespContentType resp) ''application/json''"
  shows "doDelete L c url w = (Returned (None, Some (APIRequestError ''doDelete'' url
           (''non-JSON response ('' @ RespContentType resp @ ''): ''))), w')"
  using assms by (simp add: doDelete_def isJSONResponse_rejects nonJSONError_def)

text \<open>
  C7. A server answers every request with status 500, content type \<open>text/html\<close> and
  an HTML body. \<open>CreateLeaseAsUser\<close>, which does not call \<open>isJSONResponse\<close>, classifies
  the response by its status code and returns the generic response error with the raw
  body, not the non-JSON request error; \<open>CreateLease\<close>, through \<open>doPost\<close>, returns the
  non-JSON request error, whose text names the content type and holds no body.
\<close>

theorem CreateLeaseAsUser_skips_content_type_check:
  "fst (CreateLeaseAsUser (fixtureLib htmlErrorServer) fixtureClient
          (Some (CreateLeaseRequest ''tpl'' [])) ''user@example.com'' ''secret'' [])
     = Returned (None, Some (APIResponseErr
         \<lparr>StatusCode = 500, Body = ''<html><body>Error</body></html>'', Message = []\<rparr>))
   \<and> fst (CreateLease (fixtureLib htmlErrorServer) fixtureClient
          (Some (CreateLeaseRequest ''tpl'' [])) [])
     = Returned (None, Some (APIRequestError ''doPost'' ''https://isb.example.com/leases''
         ''non-JSON response (text/html): ''))"
  by (simp add: CreateLeaseAsUser_def CreateLease_def doPost_def createLeaseBody_def
      GenerateJWT_def DecodeAPIError_def DecodeAPIError_fallback_def HasPrefix_def
      transport_defs client_fixture_defs fixture_defs)

text \<open>
  C10. \<open>ReviewLease\<close> returns the parameter error for a nil request, for an empty
  \<open>LeaseID\<close>, and for every \<open>Action\<close> that is neither \<open>Approve\<close> nor \<open>Deny\<close>. It
  returns the world as it was given, whatever the transport does to the world when a
  request is sent: nothing was sent.
\<close>

theorem ReviewLease_validates_action:
  fixes L :: "('w, 'd) lib"
  shows "ReviewLease L c None w
           = (Returned (Some (APIRequestError ''param'' [] ''LeaseID and Action are required'')), w)
       \<and> ReviewLease L c (Some (ReviewLeaseRequest [] action)) w
           = (Returned (Some (APIRequestError ''param'' [] ''LeaseID and Action are required'')), w)
       \<and> (action \<noteq> ''Approve'' \<and> action \<noteq> ''Deny'' \<longrightarrow>
            ReviewLease L c (Some (ReviewLeaseRequest leaseID action)) w
              = (Returned (Some (APIRequestError ''param'' [] ''LeaseID and Action are required'')), w))"
  by (simp add: ReviewLease_def paramError_def ReviewApprove_def ReviewDeny_def)

theorem ReviewLease_validates_action_witness:
  "ReviewLease (fixtureLib leaseServer) fixtureClient
      (Some (ReviewLeaseRequest ''abc'' ''approve'')) []
     = (Returned (Some (APIRequestError ''param'' [] ''LeaseID and Action are required'')), [])"
  using ReviewLease_validates_action
    [of "fixtureLib leaseServer" fixtureClient "[]" "''approve''" "''abc''"]
  by simp

section \<open>Properties of the pagination drainer\<close>


lemma paginateAll_loop_run_failure:
  assumes "cursorsSet ps"
    and "cursorRequests setPI req (map snd ps) = Some reqs"
    and "fst (fetchAll fetchPage reqs w) = pageAnswers ps @ [Returned (items', next', Some err)]"
  shows "paginateAll_loop fetchPage setPI req acc w
         = Some (Returned ([], Some err), snd (fetchAll fetchPage reqs w))"
  using assms
proof (induction ps arbitrary: req acc w reqs)
  case Nil
  then show ?case
    by (subst paginateAll_loop.simps) (auto simp add: pageAnswers_def split: prod.splits)
next
  case (Cons p ps)
  obtain items cur where p: "p = (items, cur)" by (cases p)
  from Cons.prems(1) p have cur: "cur \<noteq> []" and rest: "cursorsSet ps"
    by (simp_all add: cursorsSet_def)
  from Cons.prems(2) p obtain req' reqs' where
    s: "setPI cur req = Returned req'" and
    c: "cursorRequests setPI req' (map snd ps) = Some reqs'" and
    r: "reqs = req # reqs'"
    by (auto split: outcome.splits option.splits)
  obtain a w1 where f: "fetchPage req w = (a, w1)" by (cases "fetchPage req w")
  from Cons.prems(3) r f p have a: "a = Returned (items, cur, None)"
    and tl: "fst (fetchAll fetchPage reqs' w1) = pageAnswers ps @ [Returned (items', next', Some err)]"
    by (auto simp add: pageAnswers_def split: prod.splits)
  have w: "snd (fetchAll fetchPage reqs w) = snd (fetchAll fetchPage reqs' w1)"
    using r f by (simp split: prod.splits)
  show ?case
    apply (subst paginateAll_loop.simps)
    apply (simp add: f a cur s w p)
    using Cons.IH [OF rest c tl, of "acc @ items"]
    apply simp
    done
qed

lemma cursorRequests_length:
  "cursorRequests setPI req cs = Some reqs \<Longrightarrow> length reqs = length cs + 1"
  by (induction cs arbitrary: req reqs) (auto split: outcome.splits option.splits)



text \<open>
  The requests of the three paginated operations: setting the cursor of a request
  that is not nil never faults, so the chain of requests exists for every list of
  cursors.
\<close>

lemma cursorRequests_GetLeasesRequest:
  "\<exists>reqs. cursorRequests GetLeasesRequest_SetPageIdentifier (Some r) cs = Some reqs"
proof (induction cs arbitrary: r)
  case Nil
  show ?case by simp
next
  case (Cons c cs)
  obtain a b d where r: "r = GetLeasesRequest a b d" by (cases r)
  from Cons [of "GetLeasesRequest c b d"] show ?case
    by (auto simp add: r GetLeasesRequest_SetPageIdentifier_def)
qed

lemma cursorRequests_GetLeaseTemplatesRequest:
  "\<exists>reqs. cursorRequests GetLeaseTemplatesRequest_SetPageIdentifier (Some r) cs = Some reqs"
proof (induction cs arbitrary: r)
  case Nil
  show ?case by simp
next
  case (Cons c cs)
  obtain a b where r: "r = GetLeaseTemplatesRequest a b" by (cases r)
  from Cons [of "GetLeaseTemplatesRequest c b"] show ?case
    by (auto simp add: r GetLeaseTemplatesRequest_SetPageIdentifier_def)
qed

lemma cursorRequests_GetAccountsRequest:
  "\<exists>reqs. cursorRequests GetAccountsRequest_SetPageIdentifier (Some r) cs = Some reqs"
proof (induction cs arbitrary: r)
  case Nil
  show ?case by simp
next
  case (Cons c cs)
  obtain a b where r: "r = GetAccountsRequest a b" by (cases r)
  from Cons [of "GetAccountsRequest c b"] show ?case
    by (auto simp add: r GetAccountsRequest_SetPageIdentifier_def)
qed



text \<open>
  C6. Let the fetch answer pages that each name a next page and then an error, when
  it is called in turn with the requests \<open>reqs\<close> as above. Then \<open>paginateAll\<close> returns
  exactly that error and no items (the items of the earlier pages are dropped), and it
  leaves the world as the calls up to the failing one leave it: the fetch is not
  called again.
\<close>

theorem paginateAll_aborts_on_error:
  assumes "cursorsSet ps"
    and "cursorRequests setPageIdentifier req (map snd ps) = Some reqs"
    and "fst (fetchAll fetchPage reqs w) = pageAnswers ps @ [Returned (items, nextPage, Some err)]"
  shows "paginateAll fetchPage setPageIdentifier req w
           = Some (Returned ([], Some err), snd (fetchAll fetchPage reqs w))
       \<and> length reqs = length ps + 1"
  using paginateAll_loop_run_failure [OF assms, of "[]"] cursorRequests_length [OF assms(2)]
  by (simp add: paginateAll_def)

text \<open>
  A page, then a failure, then a page the fetch is never asked for: the error alone is
  returned, the last page is still in the script, and two requests were seen.
\<close>

theorem paginateAll_aborts_on_error_witness:
  "paginateAll scriptedFetch GetLeasesRequest_SetPageIdentifier
      (Some (GetLeasesRequest [] ''2'' []))
      ([Page [''lease1''] ''page2'', Failure ''boom'', Page [''lease3''] []], [])
    = Some (Returned ([], Some ''boom''),
        ([Page [''lease3''] []],
         [Some (GetLeasesRequest [] ''2'' []), Some (GetLeasesRequest ''page2'' ''2'' [])]))"
proof -
  let ?reqs = "[Some (GetLeasesRequest [] ''2'' []), Some (GetLeasesRequest ''page2'' ''2'' [])]"
  let ?w = "([Page [''lease1''] ''page2'', Failure ''boom'', Page [''lease3''] []], [])
              :: (string, string) answer list \<times> GetLeasesRequest option list"
  have c: "cursorsSet [([''lease1''], ''page2'')]"
    by (simp add: cursorsSet_def)
  have r: "cursorRequests GetLeasesRequest_SetPageIdentifier (Some (GetLeasesRequest [] ''2'' []))
             (map snd [([''lease1''], ''page2'')]) = Some ?reqs"
    by (simp add: GetLeasesRequest_SetPageIdentifier_def)
  have f: "fetchAll scriptedFetch ?reqs ?w
             = (pageAnswers [([''lease1''], ''page2'')] @ [Returned ([], [], Some ''boom'')],
                ([Page [''lease3''] []], ?reqs))"
    by (simp add: pageAnswers_def)
  then have f1: "fst (fetchAll scriptedFetch ?reqs ?w)
             = pageAnswers [([''lease1''], ''page2'')] @ [Returned ([], [], Some ''boom'')]"
    by simp
  from paginateAll_aborts_on_error [OF c r f1, THEN conjunct1] f
  show ?thesis by simp
qed

end
